theory Spec2Isabelle
  imports Main
begin

section \<open>Python values, exceptions and the external services\<close>

text \<open>
  The repository is a Streamlit application in Python: \<open>token_manager.py\<close> keeps
  encrypted Meta access tokens in a Snowflake table, \<open>auth.py\<close> runs the OAuth flow against
  the Graph API. The values that travel through both files are decoded JSON documents and
  the strings taken from them, so a Python value is a \<open>json\<close> term: \<open>JNull\<close> is
  \<open>None\<close>, an object is an association list in insertion order. JSON numbers are
  restricted to integers (no floating point).
\<close>

datatype json =
    JNull
  | JBool bool
  | JInt int
  | JStr string
  | JList "json list"
  | JObj "(string \<times> json) list"

text \<open>
  Every \<open>raise\<close> is a value. The constructors are the exception classes that the two
  files can meet; the argument is the text that \<open>str(e)\<close> shows (for \<open>KeyError\<close>
  the missing key). The texts of the interpreter's own errors follow CPython 3.11; the texts
  of \<open>requests\<close>, \<open>cryptography\<close> and the Snowflake connector are supplied by
  whoever raises them.
\<close>

datatype exn =
    KeyError string
  | TypeError string
  | AttributeError string
  | ValueError string
  | OverflowError string
  | InvalidToken
  | RequestException string
  | HTTPError string
  | JSONDecodeError string
  | DatabaseError string

fun py_str :: "exn \<Rightarrow> string" where
  "py_str (KeyError k) = [CHR 0x27] @ k @ [CHR 0x27]"
| "py_str (TypeError m) = m"
| "py_str (AttributeError m) = m"
| "py_str (ValueError m) = m"
| "py_str (OverflowError m) = m"
| "py_str InvalidToken = []"
| "py_str (RequestException m) = m"
| "py_str (HTTPError m) = m"
| "py_str (JSONDecodeError m) = m"
| "py_str (DatabaseError m) = m"

text \<open>Sequencing of statements that may raise: the first exception ends the block.\<close>

fun then_do :: "exn + 'a \<Rightarrow> ('a \<Rightarrow> exn + 'b) \<Rightarrow> exn + 'b" where
  "then_do (Inl x) f = Inl x"
| "then_do (Inr a) f = f a"

text \<open>\<open>str(n)\<close> of an integer, for the messages that show one.\<close>

fun str_nat :: "nat \<Rightarrow> string" where
  "str_nat n =
     (if n < 10 then [''0123456789'' ! n]
      else str_nat (n div 10) @ [''0123456789'' ! (n mod 10)])"

declare str_nat.simps [simp del]

definition str_int :: "int \<Rightarrow> string" where
  "str_int i = (if i < 0 then ''-'' @ str_nat (nat (- i)) else str_nat (nat i))"

fun type_name :: "json \<Rightarrow> string" where
  "type_name JNull = ''NoneType''"
| "type_name (JBool b) = ''bool''"
| "type_name (JInt i) = ''int''"
| "type_name (JStr s) = ''str''"
| "type_name (JList l) = ''list''"
| "type_name (JObj m) = ''dict''"

definition no_attribute :: "json \<Rightarrow> string \<Rightarrow> exn" where
  "no_attribute v a =
     AttributeError ([CHR 0x27] @ type_name v @ [CHR 0x27] @ '' object has no attribute ''
                     @ [CHR 0x27] @ a @ [CHR 0x27])"

text \<open>Truth value of a Python object, as \<open>if pages:\<close> tests it.\<close>

fun truthy :: "json \<Rightarrow> bool" where
  "truthy JNull = False"
| "truthy (JBool b) = b"
| "truthy (JInt i) = (i \<noteq> 0)"
| "truthy (JStr s) = (s \<noteq> [])"
| "truthy (JList l) = (l \<noteq> [])"
| "truthy (JObj m) = (m \<noteq> [])"

text \<open>\<open>for page in pages\<close>: a list gives its elements, a dict its keys, a string its
  characters; nothing else is iterable.\<close>

fun py_iter :: "json \<Rightarrow> exn + json list" where
  "py_iter (JList l) = Inr l"
| "py_iter (JObj m) = Inr (map (\<lambda>kv. JStr (fst kv)) m)"
| "py_iter (JStr s) = Inr (map (\<lambda>c. JStr [c]) s)"
| "py_iter v = Inl (TypeError ([CHR 0x27] @ type_name v @ [CHR 0x27] @ '' object is not iterable''))"

text \<open>\<open>obj[key]\<close> with a string key.\<close>

fun py_getitem :: "json \<Rightarrow> string \<Rightarrow> exn + json" where
  "py_getitem (JObj m) k = (case map_of m k of None \<Rightarrow> Inl (KeyError k) | Some v \<Rightarrow> Inr v)"
| "py_getitem (JList l) k = Inl (TypeError ''list indices must be integers or slices, not str'')"
| "py_getitem (JStr s) k =
     Inl (TypeError (''string indices must be integers, not '' @ [CHR 0x27] @ ''str'' @ [CHR 0x27]))"
| "py_getitem v k = Inl (TypeError ([CHR 0x27] @ type_name v @ [CHR 0x27] @ '' object is not subscriptable''))"

text \<open>\<open>d[key] = value\<close> on a dict: an existing key keeps its position.\<close>

definition dict_set :: "string \<Rightarrow> json \<Rightarrow> (string \<times> json) list \<Rightarrow> (string \<times> json) list" where
  "dict_set k v m =
     (if k \<in> set (map fst m) then map (\<lambda>kv. if fst kv = k then (k, v) else kv) m
      else m @ [(k, v)])"

text \<open>\<open>obj.get(key, default)\<close>: only a dict has the method.\<close>

fun py_get :: "json \<Rightarrow> string \<Rightarrow> json \<Rightarrow> exn + json" where
  "py_get (JObj m) k d = Inr (case map_of m k of None \<Rightarrow> d | Some v \<Rightarrow> v)"
| "py_get v k d = Inl (no_attribute v ''get'')"

text \<open>\<open>page.copy()\<close>: dicts and lists have the method, the copy is equal to the
  original.\<close>

fun py_copy :: "json \<Rightarrow> exn + json" where
  "py_copy (JObj m) = Inr (JObj m)"
| "py_copy (JList l) = Inr (JList l)"
| "py_copy v = Inl (no_attribute v ''copy'')"

text \<open>
  \<open>dict(page)\<close>. A dict is copied. Any other argument must be an iterable of pairs:
  a two-element list whose first element is hashable, a two-character string, or a dict
  with two keys. Of the pairs whose key is hashable only those with a string key are
  represented (an object of \<open>json\<close> has string keys); a pair with a number, boolean
  or null key is reported as the \<open>TypeError\<close> of an unhashable key.
\<close>

definition wrong_length :: "nat \<Rightarrow> nat \<Rightarrow> exn" where
  "wrong_length i n =
     ValueError (''dictionary update sequence element #'' @ str_nat i @ '' has length ''
                 @ str_nat n @ ''; 2 is required'')"

fun pair_of :: "nat \<Rightarrow> json \<Rightarrow> exn + (string \<times> json)" where
  "pair_of i (JList [JStr k, v]) = Inr (k, v)"
| "pair_of i (JList [k, v]) = Inl (TypeError (''unhashable type: '' @ [CHR 0x27] @ type_name k @ [CHR 0x27]))"
| "pair_of i (JStr [a, b]) = Inr ([a], JStr [b])"
| "pair_of i (JObj [ka, kb]) = Inr (fst ka, JStr (fst kb))"
| "pair_of i (JList l) = Inl (wrong_length i (length l))"
| "pair_of i (JStr s) = Inl (wrong_length i (length s))"
| "pair_of i (JObj m) = Inl (wrong_length i (length m))"
| "pair_of i v =
     Inl (TypeError (''cannot convert dictionary update sequence element #'' @ str_nat i
                     @ '' to a sequence''))"

fun dict_of_pairs :: "(string \<times> json) list \<Rightarrow> nat \<Rightarrow> json list \<Rightarrow> exn + (string \<times> json) list" where
  "dict_of_pairs acc i [] = Inr acc"
| "dict_of_pairs acc i (p # ps) =
     then_do (pair_of i p) (\<lambda>kv. dict_of_pairs (dict_set (fst kv) (snd kv) acc) (Suc i) ps)"

fun py_dict :: "json \<Rightarrow> exn + (string \<times> json) list" where
  "py_dict (JObj m) = Inr m"
| "py_dict v = then_do (py_iter v) (dict_of_pairs [] 0)"

section \<open>The credential vault: \<open>TokenManager.encrypt_token\<close>, \<open>decrypt_token\<close>\<close>

text \<open>
  \<open>cryptography.fernet.Fernet\<close> is a library outside the repository, so the vault is a
  parameter. \<open>encrypt\<close> cannot fail on bytes; it draws a fresh initialisation vector and
  the time at every call, which is the first argument here (the number of the call
  inside one operation). \<open>decrypt\<close> returns \<open>None\<close> where the library raises
  \<open>InvalidToken\<close>. A Python \<open>str\<close> is a \<open>string\<close>; \<open>.encode()\<close> and
  \<open>.decode()\<close> exist on \<open>str\<close> and \<open>bytes\<close> only, which is the check that remains of
  them.
\<close>

record fernet =
  encrypt :: "nat \<Rightarrow> string \<Rightarrow> string"
  decrypt :: "string \<Rightarrow> string option"

fun encrypt_token :: "fernet \<Rightarrow> nat \<Rightarrow> json \<Rightarrow> exn + string" where
  "encrypt_token f n (JStr token) = Inr (encrypt f n token)"
| "encrypt_token f n v = Inl (no_attribute v ''encode'')"

fun decrypt_token :: "fernet \<Rightarrow> json \<Rightarrow> exn + string" where
  "decrypt_token f (JStr encrypted_token) =
     (case decrypt f encrypted_token of None \<Rightarrow> Inl InvalidToken | Some token \<Rightarrow> Inr token)"
| "decrypt_token f v = Inl (no_attribute v ''encode'')"

section \<open>The table \<open>META_TOKENS\<close>\<close>

text \<open>
  A \<open>datetime\<close> is the number of microseconds since 0001-01-01T00:00:00, the least
  value of Python's type; the greatest is 9999-12-31T23:59:59.999999.
\<close>

type_synonym datetime = int

definition datetime_max :: datetime where
  "datetime_max = 3652059 * 86400000000 - 1"

text \<open>
  \<open>timedelta(seconds=expires_in)\<close>: an integer (or a boolean, which is one) number of
  seconds. The days of the duration must fit a C \<open>int\<close> and then stay within 999999999
  in magnitude.
\<close>

fun timedelta_seconds :: "json \<Rightarrow> exn + int" where
  "timedelta_seconds (JInt n) =
     (if n div 86400 < - 2147483648 \<or> 2147483647 < n div 86400
      then Inl (OverflowError ''Python int too large to convert to C int'')
      else if n div 86400 < - 999999999 \<or> 999999999 < n div 86400
      then Inl (OverflowError (''days='' @ str_int (n div 86400)
                               @ ''; must have magnitude <= 999999999''))
      else Inr (n * 1000000))"
| "timedelta_seconds (JBool b) = Inr (if b then 1000000 else 0)"
| "timedelta_seconds v =
     Inl (TypeError (''unsupported type for timedelta seconds component: '' @ type_name v))"

definition datetime_add :: "datetime \<Rightarrow> int \<Rightarrow> exn + datetime" where
  "datetime_add t d =
     (if 0 \<le> t + d \<and> t + d \<le> datetime_max then Inr (t + d)
      else Inl (OverflowError ''date value out of range''))"

text \<open>
  One row of \<open>META_TOKENS\<close>, with the columns the statements of \<open>token_manager.py\<close>
  name. A column that receives a Python value holds that value (\<open>JNull\<close> is SQL
  \<open>NULL\<close>); the timestamp and boolean columns are nullable.
\<close>

record row =
  USER_ID :: string
  META_USER_ID :: json
  ACCESS_TOKEN :: json
  TOKEN_EXPIRY :: "datetime option"
  PAGES :: json
  LAST_REFRESHED :: "datetime option"
  NEEDS_REAUTH :: "bool option"

text \<open>
  The table is created by hand in Snowflake (\<open>_create_table_if_not_exists\<close> is
  \<open>pass\<close>), and its declaration is not in the repository. What the code leaves to it is
  a parameter: the defaults of the two columns that the \<open>INSERT\<close> branch of the
  \<open>MERGE\<close> does not name (the default of \<open>LAST_REFRESHED\<close> may read the server's
  clock), and the Python value that the connector hands back for the \<open>PAGES\<close> column.
\<close>

record snowflake =
  default_LAST_REFRESHED :: "datetime \<Rightarrow> datetime option"
  default_NEEDS_REAUTH :: "bool option"
  fetch_PAGES :: "json \<Rightarrow> json"

text \<open>
  What one database session meets: \<open>snowflake.connector.connect\<close> (with
  \<open>conn.cursor()\<close>), \<open>cursor.execute\<close> and \<open>conn.close()\<close> may each raise; the
  clock of the Python process (\<open>datetime.now()\<close>) and the clock of the server
  (\<open>CURRENT_TIMESTAMP()\<close>) are read. A statement that raises changes nothing, a
  statement that returns is committed (the connector's autocommit).
\<close>

record env =
  connect_fault :: "exn option"
  execute_fault :: "exn option"
  close_fault :: "exn option"
  py_now :: datetime
  db_now :: datetime

definition raise_if :: "exn option \<Rightarrow> exn + unit" where
  "raise_if fault = (case fault of None \<Rightarrow> Inr () | Some x \<Rightarrow> Inl x)"

text \<open>The \<open>MERGE\<close> statement of \<open>store_user_token\<close>: every row of the user is
  overwritten; when there is none, one row is inserted with the five named columns.\<close>

definition merge_into :: "snowflake \<Rightarrow> datetime \<Rightarrow> string \<Rightarrow> json \<Rightarrow> json \<Rightarrow> datetime \<Rightarrow> json
    \<Rightarrow> row list \<Rightarrow> row list" where
  "merge_into sf current_timestamp uid mid tok expiry pgs tbl =
     (if uid \<in> set (map USER_ID tbl)
      then map (\<lambda>r. if USER_ID r = uid
                     then r\<lparr>META_USER_ID := mid, ACCESS_TOKEN := tok,
                            TOKEN_EXPIRY := Some expiry, PAGES := pgs,
                            LAST_REFRESHED := Some current_timestamp,
                            NEEDS_REAUTH := Some False\<rparr>
                     else r) tbl
      else tbl @ [\<lparr>USER_ID = uid, META_USER_ID = mid, ACCESS_TOKEN = tok,
                   TOKEN_EXPIRY = Some expiry, PAGES = pgs,
                   LAST_REFRESHED = default_LAST_REFRESHED sf current_timestamp,
                   NEEDS_REAUTH = default_NEEDS_REAUTH sf\<rparr>])"

text \<open>The \<open>SELECT\<close> of \<open>get_user_token\<close> with \<open>cursor.fetchone()\<close>.\<close>

definition select_where :: "string \<Rightarrow> row list \<Rightarrow> row list" where
  "select_where uid tbl = filter (\<lambda>r. USER_ID r = uid) tbl"

fun fetchone :: "row list \<Rightarrow> row option" where
  "fetchone [] = None"
| "fetchone (r # rs) = Some r"

text \<open>The \<open>UPDATE\<close> of \<open>_mark_token_for_reauth\<close>.\<close>

definition update_needs_reauth :: "string \<Rightarrow> row list \<Rightarrow> row list" where
  "update_needs_reauth uid tbl =
     map (\<lambda>r. if USER_ID r = uid then r\<lparr>NEEDS_REAUTH := Some True\<rparr> else r) tbl"

section \<open>\<open>TokenManager\<close>: the token store\<close>

text \<open>\<open>'access_token' in page_copy\<close> and \<open>page_copy['access_token'] = ...\<close>.\<close>

fun py_contains :: "string \<Rightarrow> json \<Rightarrow> exn + bool" where
  "py_contains k (JObj m) = Inr (k \<in> set (map fst m))"
| "py_contains k (JList l) = Inr (JStr k \<in> set l)"
| "py_contains k (JStr s) =
     Inr (list_ex (\<lambda>i. take (length k) (drop i s) = k) [0 ..< Suc (length s)])"
| "py_contains k v =
     Inl (TypeError (''argument of type '' @ [CHR 0x27] @ type_name v @ [CHR 0x27] @ '' is not iterable''))"

fun py_setitem :: "json \<Rightarrow> string \<Rightarrow> json \<Rightarrow> exn + json" where
  "py_setitem (JObj m) k v = Inr (JObj (dict_set k v m))"
| "py_setitem (JList l) k v = Inl (TypeError ''list indices must be integers or slices, not str'')"
| "py_setitem w k v =
     Inl (TypeError ([CHR 0x27] @ type_name w @ [CHR 0x27] @ '' object does not support item assignment''))"

text \<open>
  The body of the loop \<open>for page in pages\<close> of \<open>store_user_token\<close>; \<open>n\<close> counts the
  calls of \<open>encrypt_token\<close> made so far.
\<close>

definition encrypt_page :: "fernet \<Rightarrow> nat \<Rightarrow> json \<Rightarrow> exn + (json \<times> nat)" where
  "encrypt_page f n page =
     then_do (py_copy page) (\<lambda>page_copy.
     then_do (py_contains ''access_token'' page_copy) (\<lambda>present.
       if present
       then then_do (py_getitem page_copy ''access_token'') (\<lambda>token.
            then_do (encrypt_token f n token) (\<lambda>encrypted.
            then_do (py_setitem page_copy ''access_token'' (JStr encrypted)) (\<lambda>page_copy'.
              Inr (page_copy', Suc n))))
       else Inr (page_copy, n)))"

fun encrypt_pages :: "fernet \<Rightarrow> nat \<Rightarrow> json list \<Rightarrow> exn + json list" where
  "encrypt_pages f n [] = Inr []"
| "encrypt_pages f n (page # rest) =
     then_do (encrypt_page f n page) (\<lambda>pn.
     then_do (encrypt_pages f (snd pn) rest) (\<lambda>encrypted_pages.
       Inr (fst pn # encrypted_pages)))"

text \<open>
  \<open>store_user_token\<close> up to the \<open>MERGE\<close>: the connection, the encrypted token, the expiry
  date and the encrypted pages. \<open>json.dumps\<close> followed by \<open>PARSE_JSON\<close> gives the
  column the list itself; \<open>None\<close> gives \<open>NULL\<close>.
\<close>

definition store_prepare :: "fernet \<Rightarrow> env \<Rightarrow> json \<Rightarrow> json \<Rightarrow> json \<Rightarrow> exn + (string \<times> datetime \<times> json)" where
  "store_prepare f e access_token expires_in pgs =
     then_do (raise_if (connect_fault e)) (\<lambda>conn.
     then_do (encrypt_token f 0 access_token) (\<lambda>encrypted_token.
     then_do (timedelta_seconds expires_in) (\<lambda>delta.
     then_do (datetime_add (py_now e) delta) (\<lambda>expiry_date.
     then_do (if truthy pgs
              then then_do (py_iter pgs) (\<lambda>l.
                   then_do (encrypt_pages f 1 l) (\<lambda>encrypted_pages. Inr (JList encrypted_pages)))
              else Inr JNull) (\<lambda>encrypted_pages.
       Inr (encrypted_token, expiry_date, encrypted_pages))))))"

text \<open>The \<open>try\<close> block of \<open>store_user_token\<close>: what it raises or that it ended, and the
  table it leaves.\<close>

definition store_user_token_try :: "fernet \<Rightarrow> snowflake \<Rightarrow> env \<Rightarrow> string \<Rightarrow> json \<Rightarrow> json \<Rightarrow> json \<Rightarrow> json
    \<Rightarrow> row list \<Rightarrow> (exn + unit) \<times> row list" where
  "store_user_token_try f sf e uid mid access_token expires_in pgs tbl =
     (case store_prepare f e access_token expires_in pgs of
        Inl x \<Rightarrow> (Inl x, tbl)
      | Inr (encrypted_token, expiry_date, encrypted_pages) \<Rightarrow>
          (case execute_fault e of
             Some x \<Rightarrow> (Inl x, tbl)
           | None \<Rightarrow>
               let tbl' = merge_into sf (db_now e) uid mid (JStr encrypted_token) expiry_date
                            encrypted_pages tbl
               in (case close_fault e of
                     Some x \<Rightarrow> (Inl x, tbl')
                   | None \<Rightarrow> (Inr (), tbl'))))"

text \<open>\<open>store_user_token\<close>: the returned boolean, the table afterwards, and the messages
  shown with \<open>st.error\<close>.\<close>

definition store_user_token :: "fernet \<Rightarrow> snowflake \<Rightarrow> env \<Rightarrow> string \<Rightarrow> json \<Rightarrow> json \<Rightarrow> json \<Rightarrow> json
    \<Rightarrow> row list \<Rightarrow> bool \<times> row list \<times> string list" where
  "store_user_token f sf e uid mid access_token expires_in pgs tbl =
     (case store_user_token_try f sf e uid mid access_token expires_in pgs tbl of
        (Inl x, tbl') \<Rightarrow> (False, tbl', [''Error storing token: '' @ py_str x])
      | (Inr u, tbl') \<Rightarrow> (True, tbl', []))"

text \<open>\<open>_mark_token_for_reauth\<close>: returns nothing; the table afterwards and the messages
  shown.\<close>

definition mark_token_for_reauth_try :: "env \<Rightarrow> string \<Rightarrow> row list \<Rightarrow> (exn + unit) \<times> row list" where
  "mark_token_for_reauth_try e uid tbl =
     (case connect_fault e of
        Some x \<Rightarrow> (Inl x, tbl)
      | None \<Rightarrow>
          (case execute_fault e of
             Some x \<Rightarrow> (Inl x, tbl)
           | None \<Rightarrow>
               (case close_fault e of
                  Some x \<Rightarrow> (Inl x, update_needs_reauth uid tbl)
                | None \<Rightarrow> (Inr (), update_needs_reauth uid tbl))))"

definition mark_token_for_reauth :: "env \<Rightarrow> string \<Rightarrow> row list \<Rightarrow> row list \<times> string list" where
  "mark_token_for_reauth e uid tbl =
     (case mark_token_for_reauth_try e uid tbl of
        (Inl x, tbl') \<Rightarrow> (tbl', [''Error marking token for reauth: '' @ py_str x])
      | (Inr u, tbl') \<Rightarrow> (tbl', []))"

text \<open>What \<open>get_user_token\<close> returns: \<open>None\<close>, the dict \<open>{'needs_reauth': True}\<close>, or
  the dict of the six entries.\<close>

record token_record =
  user_id :: string
  meta_user_id :: json
  access_token :: string
  token_expiry :: "datetime option"
  pages :: json
  needs_reauth :: bool

datatype fetch_result =
    NotFound
  | NeedsReauthMarker
  | TokenRecord token_record

text \<open>The body of the loop \<open>for page in encrypted_pages\<close> of \<open>get_user_token\<close>.\<close>

definition decrypt_page :: "fernet \<Rightarrow> json \<Rightarrow> exn + json" where
  "decrypt_page f page =
     then_do (py_dict page) (\<lambda>page_copy.
       if ''access_token'' \<in> set (map fst page_copy)
       then then_do (py_getitem (JObj page_copy) ''access_token'') (\<lambda>encrypted.
            then_do (decrypt_token f encrypted) (\<lambda>token.
              Inr (JObj (dict_set ''access_token'' (JStr token) page_copy))))
       else Inr (JObj page_copy))"

fun decrypt_pages :: "fernet \<Rightarrow> json list \<Rightarrow> exn + json list" where
  "decrypt_pages f [] = Inr []"
| "decrypt_pages f (page # rest) =
     then_do (decrypt_page f page) (\<lambda>page_copy.
     then_do (decrypt_pages f rest) (\<lambda>ps. Inr (page_copy # ps)))"

text \<open>\<open>token_expiry and token_expiry < datetime.now()\<close>: a \<open>datetime\<close> is always
  true, \<open>None\<close> is false.\<close>

definition expired :: "datetime option \<Rightarrow> datetime \<Rightarrow> bool" where
  "expired expiry now = (case expiry of None \<Rightarrow> False | Some t \<Rightarrow> t < now)"

text \<open>The block \<open>if encrypted_pages:\<close> of \<open>get_user_token\<close>, on the value fetched
  for the \<open>PAGES\<close> column.\<close>

definition decrypt_column :: "fernet \<Rightarrow> json \<Rightarrow> exn + json" where
  "decrypt_column f encrypted_pages =
     (if truthy encrypted_pages
      then then_do (py_iter encrypted_pages) (\<lambda>l.
           then_do (decrypt_pages f l) (\<lambda>ps. Inr (JList ps)))
      else Inr JNull)"

text \<open>\<open>get_user_token\<close> from the decryption on, for the fetched row.\<close>

definition decrypt_record :: "fernet \<Rightarrow> snowflake \<Rightarrow> row \<Rightarrow> exn + fetch_result" where
  "decrypt_record f sf r =
     then_do (decrypt_token f (ACCESS_TOKEN r)) (\<lambda>token.
     then_do (decrypt_column f (fetch_PAGES sf (PAGES r))) (\<lambda>pgs.
       Inr (TokenRecord \<lparr>user_id = USER_ID r, meta_user_id = META_USER_ID r,
                         access_token = token, token_expiry = TOKEN_EXPIRY r,
                         pages = pgs, needs_reauth = False\<rparr>)))"

text \<open>
  The \<open>try\<close> block of \<open>get_user_token\<close>. \<open>e\<close> is the session of the \<open>SELECT\<close>,
  \<open>em\<close> the session that \<open>_mark_token_for_reauth\<close> opens for itself.
\<close>

definition get_user_token_try :: "fernet \<Rightarrow> snowflake \<Rightarrow> env \<Rightarrow> env \<Rightarrow> string \<Rightarrow> row list
    \<Rightarrow> (exn + fetch_result) \<times> row list \<times> string list" where
  "get_user_token_try f sf e em uid tbl =
     (case connect_fault e of
        Some x \<Rightarrow> (Inl x, tbl, [])
      | None \<Rightarrow>
     (case execute_fault e of
        Some x \<Rightarrow> (Inl x, tbl, [])
      | None \<Rightarrow>
     (case close_fault e of
        Some x \<Rightarrow> (Inl x, tbl, [])
      | None \<Rightarrow>
     (case fetchone (select_where uid tbl) of
        None \<Rightarrow> (Inr NotFound, tbl, [])
      | Some r \<Rightarrow>
          if NEEDS_REAUTH r = Some True then (Inr NeedsReauthMarker, tbl, [])
          else if expired (TOKEN_EXPIRY r) (py_now e)
          then (case mark_token_for_reauth em (USER_ID r) tbl of
                  (tbl', shown) \<Rightarrow> (Inr NeedsReauthMarker, tbl', shown))
          else (decrypt_record f sf r, tbl, [])))))"

definition get_user_token :: "fernet \<Rightarrow> snowflake \<Rightarrow> env \<Rightarrow> env \<Rightarrow> string \<Rightarrow> row list
    \<Rightarrow> fetch_result \<times> row list \<times> string list" where
  "get_user_token f sf e em uid tbl =
     (case get_user_token_try f sf e em uid tbl of
        (Inl x, tbl', shown) \<Rightarrow> (NotFound, tbl', shown @ [''Error retrieving token: '' @ py_str x])
      | (Inr result, tbl', shown) \<Rightarrow> (result, tbl', shown))"

section \<open>\<open>MetaAuth\<close>: the OAuth flow\<close>

text \<open>
  The Graph API is reached through \<open>requests.get(url, params=...)\<close>, which raises (no
  network, timeout) or returns a response. Of a response the code reads the status, the
  decoded body (\<open>response.json()\<close> raises on a body that is not JSON) and, through
  \<open>raise_for_status\<close>, the text of the status line.
\<close>

record response =
  status_code :: int
  status_text :: string
  body :: "exn + json"

type_synonym remote = "string \<Rightarrow> (string \<times> json) list \<Rightarrow> exn + response"

text \<open>\<open>Response.raise_for_status\<close> of \<open>requests\<close>: an \<open>HTTPError\<close> for the client
  and server errors, 400 to 599, and for no other status.\<close>

definition raise_for_status :: "response \<Rightarrow> exn + unit" where
  "raise_for_status r =
     (if 400 \<le> status_code r \<and> status_code r < 600 then Inl (HTTPError (status_text r))
      else Inr ())"

record meta_auth =
  app_id :: string
  app_secret :: string
  redirect_uri :: string

definition exchange_code_for_token :: "meta_auth \<Rightarrow> remote \<Rightarrow> string \<Rightarrow> exn + json" where
  "exchange_code_for_token ma requests_get code =
     then_do (requests_get ''https://graph.facebook.com/v18.0/oauth/access_token''
                [(''client_id'', JStr (app_id ma)), (''client_secret'', JStr (app_secret ma)),
                 (''redirect_uri'', JStr (redirect_uri ma)), (''code'', JStr code)]) (\<lambda>response.
     then_do (raise_for_status response) (\<lambda>u. body response))"

definition get_long_lived_token :: "meta_auth \<Rightarrow> remote \<Rightarrow> json \<Rightarrow> exn + json" where
  "get_long_lived_token ma requests_get token =
     then_do (requests_get ''https://graph.facebook.com/v18.0/oauth/access_token''
                [(''grant_type'', JStr ''fb_exchange_token''), (''client_id'', JStr (app_id ma)),
                 (''client_secret'', JStr (app_secret ma)), (''fb_exchange_token'', token)]) (\<lambda>response.
     then_do (raise_for_status response) (\<lambda>u. body response))"

definition get_user_info :: "remote \<Rightarrow> json \<Rightarrow> exn + json" where
  "get_user_info requests_get token =
     then_do (requests_get ''https://graph.facebook.com/v18.0/me''
                [(''access_token'', token), (''fields'', JStr ''id,name,email'')]) (\<lambda>response.
     then_do (raise_for_status response) (\<lambda>u. body response))"

definition get_pages :: "remote \<Rightarrow> json \<Rightarrow> exn + json" where
  "get_pages requests_get token =
     then_do (requests_get ''https://graph.facebook.com/v18.0/me/accounts''
                [(''access_token'', token),
                 (''fields'', JStr ''id,name,access_token,category,instagram_business_account{id,name,username}'')])
       (\<lambda>response.
          if status_code response = 200
          then then_do (body response) (\<lambda>j. py_get j ''data'' (JList []))
          else Inr (JList []))"

text \<open>
  \<open>complete_oauth_flow\<close> from the code to the pages, the part of its \<open>try\<close> block
  before the store is called: the user's info, the Meta user id, the long-lived token, its
  lifetime and the pages.
\<close>

definition oauth_stages :: "meta_auth \<Rightarrow> remote \<Rightarrow> string \<Rightarrow> exn + (json \<times> json \<times> json \<times> json \<times> json)" where
  "oauth_stages ma requests_get code =
     then_do (exchange_code_for_token ma requests_get code) (\<lambda>token_data.
     then_do (py_getitem token_data ''access_token'') (\<lambda>short_token.
     then_do (get_long_lived_token ma requests_get short_token) (\<lambda>long_lived_data.
     then_do (py_getitem long_lived_data ''access_token'') (\<lambda>long_lived_token.
     then_do (py_getitem long_lived_data ''expires_in'') (\<lambda>expires_in.
     then_do (get_user_info requests_get long_lived_token) (\<lambda>user_info.
     then_do (py_getitem user_info ''id'') (\<lambda>mid.
     then_do (get_pages requests_get long_lived_token) (\<lambda>pgs.
       Inr (user_info, mid, long_lived_token, expires_in, pgs)))))))))"

text \<open>
  \<open>complete_oauth_flow\<close>. The token manager is handed to \<open>MetaAuth\<close> at
  construction, so its \<open>store_user_token\<close> is the argument \<open>store\<close>, acting on a
  state of its own. The result is the returned value (\<open>JNull\<close> is \<open>None\<close>), the
  state of the store, and the messages that the flow itself shows.
\<close>

definition complete_oauth_flow :: "meta_auth \<Rightarrow> remote
    \<Rightarrow> (string \<Rightarrow> json \<Rightarrow> json \<Rightarrow> json \<Rightarrow> json \<Rightarrow> 's \<Rightarrow> bool \<times> 's)
    \<Rightarrow> string \<Rightarrow> string \<Rightarrow> 's \<Rightarrow> json \<times> 's \<times> string list" where
  "complete_oauth_flow ma requests_get store uid code s =
     (case oauth_stages ma requests_get code of
        Inl x \<Rightarrow> (JNull, s, [''Error completing OAuth flow: '' @ py_str x])
      | Inr (user_info, mid, long_lived_token, expires_in, pgs) \<Rightarrow>
          (case store uid mid long_lived_token expires_in pgs s of
             (success, s') \<Rightarrow>
               if \<not> success then (JNull, s', [])
               else (JObj [(''user_info'', user_info), (''pages'', pgs)], s', [])))"

text \<open>The store of a \<open>TokenManager\<close>, as \<open>complete_oauth_flow\<close> calls it: the state is
  the table with the messages shown so far.\<close>

definition token_manager_store :: "fernet \<Rightarrow> snowflake \<Rightarrow> env
    \<Rightarrow> string \<Rightarrow> json \<Rightarrow> json \<Rightarrow> json \<Rightarrow> json \<Rightarrow> row list \<times> string list \<Rightarrow> bool \<times> row list \<times> string list" where
  "token_manager_store f sf e uid mid token expires_in pgs s =
     (case store_user_token f sf e uid mid token expires_in pgs (fst s) of
        (success, tbl', shown) \<Rightarrow> (success, tbl', snd s @ shown))"

text \<open>A store that only records the calls it receives.\<close>

definition recording_store :: "bool \<Rightarrow> string \<Rightarrow> json \<Rightarrow> json \<Rightarrow> json \<Rightarrow> json
    \<Rightarrow> (string \<times> json \<times> json \<times> json \<times> json) list \<Rightarrow> bool \<times> (string \<times> json \<times> json \<times> json \<times> json) list" where
  "recording_store answer uid mid token expires_in pgs calls =
     (answer, calls @ [(uid, mid, token, expires_in, pgs)])"

section \<open>A concrete deployment\<close>

text \<open>
  A vault, a table declaration, sessions and a Graph API to run the operations on. The
  vault is a toy: it prefixes the plaintext with a tag and the number of the call, and
  accepts exactly the strings that carry the tag.
\<close>

definition toy_fernet :: fernet where
  "toy_fernet = \<lparr>encrypt = (\<lambda>n s. ''gAAAAA'' @ replicate n CHR ''='' @ ''|'' @ s),
                 decrypt = (\<lambda>c. if take 6 c = ''gAAAAA''
                                 then Some (tl (dropWhile (\<lambda>x. x = CHR ''='') (drop 6 c)))
                                 else None)\<rparr>"

definition plain_table :: snowflake where
  "plain_table = \<lparr>default_LAST_REFRESHED = (\<lambda>now. None), default_NEEDS_REAUTH = None,
                  fetch_PAGES = (\<lambda>v. v)\<rparr>"

definition session_at :: "datetime \<Rightarrow> env" where
  "session_at t = \<lparr>connect_fault = None, execute_fault = None, close_fault = None,
                   py_now = t, db_now = t\<rparr>"

definition offline :: env where
  "offline = \<lparr>connect_fault = Some (DatabaseError ''250001: could not connect''),
              execute_fault = None, close_fault = None, py_now = 0, db_now = 0\<rparr>"

definition page_one :: json where
  "page_one = JObj [(''id'', JStr ''p1''), (''name'', JStr ''Page One''),
                    (''access_token'', JStr ''page-tok'')]"

text \<open>Three rows of a table: one flagged for reauthorization whose token no vault of the
  toy kind decrypts and whose expiry lies far ahead, one without an expiry, and one whose
  token is not a ciphertext.\<close>

definition flagged_row :: row where
  "flagged_row = \<lparr>USER_ID = ''u1'', META_USER_ID = JStr ''fb123'',
                  ACCESS_TOKEN = JStr ''damaged'', TOKEN_EXPIRY = Some 9000000000,
                  PAGES = JNull, LAST_REFRESHED = None, NEEDS_REAUTH = Some True\<rparr>"

definition open_row :: row where
  "open_row = \<lparr>USER_ID = ''u1'', META_USER_ID = JStr ''fb123'',
               ACCESS_TOKEN = JStr ''gAAAAA|tok-abc'', TOKEN_EXPIRY = None,
               PAGES = JList [JObj [(''id'', JStr ''p1''),
                                    (''access_token'', JStr ''gAAAAA=|page-tok'')]],
               LAST_REFRESHED = None, NEEDS_REAUTH = None\<rparr>"

definition damaged_row :: row where
  "damaged_row = \<lparr>USER_ID = ''u1'', META_USER_ID = JStr ''fb123'',
                  ACCESS_TOKEN = JStr ''damaged'', TOKEN_EXPIRY = Some 9000000000,
                  PAGES = JNull, LAST_REFRESHED = None, NEEDS_REAUTH = Some False\<rparr>"

text \<open>A row without an expiry whose token is not a ciphertext, a row with a page whose
  token is not a ciphertext, and a row with one page without a token and one with a
  token.\<close>

definition damaged_open_row :: row where
  "damaged_open_row = \<lparr>USER_ID = ''u1'', META_USER_ID = JStr ''fb123'',
                       ACCESS_TOKEN = JStr ''damaged'', TOKEN_EXPIRY = None,
                       PAGES = JNull, LAST_REFRESHED = None, NEEDS_REAUTH = None\<rparr>"

definition damaged_page_row :: row where
  "damaged_page_row = \<lparr>USER_ID = ''u1'', META_USER_ID = JStr ''fb123'',
                       ACCESS_TOKEN = JStr ''gAAAAA|tok-abc'', TOKEN_EXPIRY = None,
                       PAGES = JList [JObj [(''id'', JStr ''p2'')],
                                      JObj [(''id'', JStr ''p1''),
                                            (''access_token'', JStr ''damaged'')]],
                       LAST_REFRESHED = None, NEEDS_REAUTH = Some False\<rparr>"

definition two_page_row :: row where
  "two_page_row = \<lparr>USER_ID = ''u1'', META_USER_ID = JStr ''fb123'',
                   ACCESS_TOKEN = JStr ''gAAAAA|tok-abc'', TOKEN_EXPIRY = None,
                   PAGES = JList [JObj [(''id'', JStr ''p2'')],
                                  JObj [(''id'', JStr ''p1''),
                                        (''access_token'', JStr ''gAAAAA=|page-tok'')]],
                   LAST_REFRESHED = None, NEEDS_REAUTH = None\<rparr>"

text \<open>Pages without a token and with a second token, and a session whose
  \<open>conn.close()\<close> raises.\<close>

definition page_two :: json where
  "page_two = JObj [(''id'', JStr ''p2''), (''name'', JStr ''Page Two'')]"

definition page_three :: json where
  "page_three = JObj [(''access_token'', JStr ''third-tok''), (''id'', JStr ''p3'')]"

definition page_with_number :: json where
  "page_with_number = JObj [(''id'', JStr ''p4''), (''access_token'', JInt 42)]"

definition drops_on_close :: env where
  "drops_on_close = \<lparr>connect_fault = None, execute_fault = None,
                     close_fault = Some (DatabaseError ''connection reset''),
                     py_now = 1000, db_now = 1000\<rparr>"

text \<open>A connector that hands a \<open>PAGES\<close> value that is not \<open>NULL\<close> back as text
  (here always the text of an array of one empty object).\<close>

definition text_connector :: snowflake where
  "text_connector = \<lparr>default_LAST_REFRESHED = (\<lambda>now. None), default_NEEDS_REAUTH = None,
                      fetch_PAGES = (\<lambda>v. if v = JNull then JNull else JStr ''[{}]'')\<rparr>"

definition app :: meta_auth where
  "app = \<lparr>app_id = ''1234'', app_secret = ''s3cret'', redirect_uri = ''https://app/cb''\<rparr>"

text \<open>A Graph API that answers the three token and identity requests and answers the
  request for the pages with the given response.\<close>

definition graph_api :: "response \<Rightarrow> remote" where
  "graph_api accounts url params =
     (if url = ''https://graph.facebook.com/v18.0/me/accounts'' then Inr accounts
      else if url = ''https://graph.facebook.com/v18.0/me''
      then Inr \<lparr>status_code = 200, status_text = ''OK'',
                body = Inr (JObj [(''id'', JStr ''fb123''), (''name'', JStr ''Ann'')])\<rparr>
      else if map_of params ''grant_type'' = Some (JStr ''fb_exchange_token'')
      then Inr \<lparr>status_code = 200, status_text = ''OK'',
                body = Inr (JObj [(''access_token'', JStr ''long-tok''), (''expires_in'', JInt 5184000)])\<rparr>
      else Inr \<lparr>status_code = 200, status_text = ''OK'',
                body = Inr (JObj [(''access_token'', JStr ''short-tok'')])\<rparr>)"

definition server_error :: response where
  "server_error = \<lparr>status_code = 500, status_text = ''500 Server Error'',
                   body = Inr (JObj [(''error'', JStr ''unavailable'')])\<rparr>"

definition forbidden :: response where
  "forbidden = \<lparr>status_code = 403, status_text = ''403 Client Error'',
                body = Inr (JObj [(''error'', JStr ''forbidden'')])\<rparr>"

definition not_json :: response where
  "not_json = \<lparr>status_code = 200, status_text = ''OK'',
               body = Inl (JSONDecodeError ''Expecting value: line 1 column 1 (char 0)'')\<rparr>"

definition one_page :: response where
  "one_page = \<lparr>status_code = 200, status_text = ''OK'',
               body = Inr (JObj [(''data'', JList [page_one])])\<rparr>"

text \<open>Two Graph APIs that leave out the \<open>access_token\<close>: the first in every answer, the
  second in every answer but the one to the authorization code.\<close>

definition empty_object :: response where
  "empty_object = \<lparr>status_code = 200, status_text = ''OK'', body = Inr (JObj [])\<rparr>"

definition no_short_token :: remote where
  "no_short_token url params = Inr empty_object"

definition no_long_token :: remote where
  "no_long_token url params =
     (if map_of params ''code'' = Some (JStr ''code'')
      then Inr \<lparr>status_code = 200, status_text = ''OK'',
                body = Inr (JObj [(''access_token'', JStr ''short-tok'')])\<rparr>
      else Inr empty_object)"

section \<open>Sequencing and the statements on the table\<close>

lemma then_do_Inr_iff: "then_do m g = Inr b \<longleftrightarrow> (\<exists>a. m = Inr a \<and> g a = Inr b)"
  by (cases m) simp_all

lemma filter_map_other:
  assumes "\<And>r. USER_ID (g r) = USER_ID r" and "u \<noteq> uid"
  shows "filter (\<lambda>r. USER_ID r = u) (map (\<lambda>r. if USER_ID r = uid then g r else r) tbl)
         = filter (\<lambda>r. USER_ID r = u) tbl"
  using assms by (induction tbl) auto

lemma filter_map_same:
  assumes "\<And>r. USER_ID (g r) = USER_ID r"
  shows "filter (\<lambda>r. USER_ID r = uid) (map (\<lambda>r. if USER_ID r = uid then g r else r) tbl)
         = map g (filter (\<lambda>r. USER_ID r = uid) tbl)"
  using assms by (induction tbl) auto

lemma select_empty_iff: "select_where uid tbl = [] \<longleftrightarrow> uid \<notin> set (map USER_ID tbl)"
  by (auto simp: select_where_def filter_empty_conv)

lemma select_merge_other:
  assumes "u \<noteq> uid"
  shows "select_where u (merge_into sf ts uid mid tok ex pgs tbl) = select_where u tbl"
proof (cases "uid \<in> set (map USER_ID tbl)")
  case True
  then show ?thesis
    unfolding select_where_def merge_into_def
    using filter_map_other [OF _ assms, where g = "\<lambda>r. r\<lparr>META_USER_ID := mid, ACCESS_TOKEN := tok,
                            TOKEN_EXPIRY := Some ex, PAGES := pgs,
                            LAST_REFRESHED := Some ts,
                            NEEDS_REAUTH := Some False\<rparr>" and tbl = tbl]
    by simp
next
  case False
  then show ?thesis using assms by (simp add: select_where_def merge_into_def)
qed

lemma select_merge_absent:
  assumes "select_where uid tbl = []"
  shows "select_where uid (merge_into sf ts uid mid tok ex pgs tbl) =
     [\<lparr>USER_ID = uid, META_USER_ID = mid, ACCESS_TOKEN = tok, TOKEN_EXPIRY = Some ex, PAGES = pgs,
       LAST_REFRESHED = default_LAST_REFRESHED sf ts, NEEDS_REAUTH = default_NEEDS_REAUTH sf\<rparr>]"
proof -
  from assms have "uid \<notin> set (map USER_ID tbl)" by (simp add: select_empty_iff)
  moreover from assms have "filter (\<lambda>r. USER_ID r = uid) tbl = []" by (simp add: select_where_def)
  ultimately show ?thesis by (simp add: select_where_def merge_into_def)
qed

lemma select_merge_present:
  assumes "select_where uid tbl \<noteq> []"
  shows "select_where uid (merge_into sf ts uid mid tok ex pgs tbl) =
     map (\<lambda>r. \<lparr>USER_ID = uid, META_USER_ID = mid, ACCESS_TOKEN = tok, TOKEN_EXPIRY = Some ex,
                PAGES = pgs, LAST_REFRESHED = Some ts, NEEDS_REAUTH = Some False\<rparr>)
         (select_where uid tbl)"
proof -
  from assms have "uid \<in> set (map USER_ID tbl)" by (simp add: select_empty_iff)
  then show ?thesis by (simp add: select_where_def merge_into_def filter_map comp_def)
qed

lemma store_True_iff:
  "store_user_token f sf e uid mid tok ex pgs tbl = (True, tbl', shown) \<longleftrightarrow>
   (\<exists>c x p. store_prepare f e tok ex pgs = Inr (c, x, p) \<and> execute_fault e = None
      \<and> close_fault e = None \<and> tbl' = merge_into sf (db_now e) uid mid (JStr c) x p tbl
      \<and> shown = [])"
  by (auto simp: store_user_token_def store_user_token_try_def Let_def
           split: sum.splits option.splits prod.splits)

lemma store_prepare_Inr:
  assumes "store_prepare f e tok ex pgs = Inr (c, x, p)"
  shows "connect_fault e = None" and "encrypt_token f 0 tok = Inr c"
    and "\<exists>d. timedelta_seconds ex = Inr d \<and> datetime_add (py_now e) d = Inr x"
  using assms
  by (auto simp: store_prepare_def then_do_Inr_iff raise_if_def split: option.splits)

lemma store_prepare_expiry:
  assumes "store_prepare f e tok (JInt n) pgs = Inr (c, x, p)"
  shows "x = py_now e + n * 1000000"
  using store_prepare_Inr(3) [OF assms]
  by (auto simp: datetime_add_def split: if_splits)

section \<open>The upsert: store_user_token\<close>

lemma merge_written:
  "select_where uid (merge_into sf ts uid mid tok ex pgs tbl) \<noteq> [] \<and>
   (\<forall>r\<in>set (select_where uid (merge_into sf ts uid mid tok ex pgs tbl)).
      META_USER_ID r = mid \<and> ACCESS_TOKEN r = tok \<and> TOKEN_EXPIRY r = Some ex \<and> PAGES r = pgs)"
  by (cases "select_where uid tbl = []") (auto simp: select_merge_absent select_merge_present)

lemmas run_store = store_user_token_def store_user_token_try_def store_prepare_def raise_if_def
  session_at_def offline_def toy_fernet_def plain_table_def merge_into_def datetime_add_def
  datetime_max_def page_one_def encrypt_page_def dict_set_def Let_def

section \<open>The fetch: get_user_token and _mark_token_for_reauth\<close>

lemma fetchone_Some_iff: "fetchone rs = Some r \<longleftrightarrow> (\<exists>rest. rs = r # rest)"
  by (cases rs) auto

lemma get_session_fault:
  assumes "connect_fault e \<noteq> None \<or> execute_fault e \<noteq> None \<or> close_fault e \<noteq> None"
  shows "\<exists>x. get_user_token f sf e em uid tbl
               = (NotFound, tbl, [''Error retrieving token: '' @ py_str x])"
  using assms
  by (auto simp: get_user_token_def get_user_token_try_def split: option.splits)

lemma get_absent:
  assumes "select_where uid tbl = []"
  shows "fst (get_user_token f sf e em uid tbl) = NotFound"
    and "fst (snd (get_user_token f sf e em uid tbl)) = tbl"
  using assms
  by (auto simp: get_user_token_def get_user_token_try_def split: option.splits)

lemma get_flagged:
  assumes "fetchone (select_where uid tbl) = Some r" and "NEEDS_REAUTH r = Some True"
    and "connect_fault e = None" and "execute_fault e = None" and "close_fault e = None"
  shows "get_user_token f sf e em uid tbl = (NeedsReauthMarker, tbl, [])"
  using assms by (simp add: get_user_token_def get_user_token_try_def)

lemma get_expired:
  assumes "fetchone (select_where uid tbl) = Some r" and "NEEDS_REAUTH r \<noteq> Some True"
    and "expired (TOKEN_EXPIRY r) (py_now e)"
    and "connect_fault e = None" and "execute_fault e = None" and "close_fault e = None"
  shows "get_user_token f sf e em uid tbl
           = (NeedsReauthMarker, mark_token_for_reauth em (USER_ID r) tbl)"
  using assms
  by (simp add: get_user_token_def get_user_token_try_def split: prod.splits)

lemma get_current:
  assumes "fetchone (select_where uid tbl) = Some r" and "NEEDS_REAUTH r \<noteq> Some True"
    and "\<not> expired (TOKEN_EXPIRY r) (py_now e)"
    and "connect_fault e = None" and "execute_fault e = None" and "close_fault e = None"
  shows "get_user_token f sf e em uid tbl =
           (case decrypt_record f sf r of
              Inl x \<Rightarrow> (NotFound, tbl, [''Error retrieving token: '' @ py_str x])
            | Inr result \<Rightarrow> (result, tbl, []))"
  using assms
  by (simp add: get_user_token_def get_user_token_try_def split: sum.splits)

lemma get_raised:
  assumes "fst (get_user_token_try f sf e em uid tbl) = Inl x"
  shows "fst (get_user_token f sf e em uid tbl) = NotFound"
  using assms by (auto simp: get_user_token_def split: prod.splits sum.splits)

lemma get_never_record_if_stale:
  assumes "fetchone (select_where uid tbl) = Some r"
    and "NEEDS_REAUTH r = Some True \<or> expired (TOKEN_EXPIRY r) (py_now e)"
  shows "fst (get_user_token f sf e em uid tbl) \<noteq> TokenRecord rec"
  using assms
  by (auto simp: get_user_token_def get_user_token_try_def split: option.splits prod.splits)

lemma get_stale_marker:
  assumes "fetchone (select_where uid tbl) = Some r"
    and "NEEDS_REAUTH r = Some True \<or> expired (TOKEN_EXPIRY r) (py_now e)"
    and "connect_fault e = None" and "execute_fault e = None" and "close_fault e = None"
  shows "fst (get_user_token f sf e em uid tbl) = NeedsReauthMarker"
  using assms
  by (auto simp: get_user_token_def get_user_token_try_def split: option.splits prod.splits)

lemma mark_table:
  "fst (mark_token_for_reauth e uid tbl) =
     (if connect_fault e = None \<and> execute_fault e = None then update_needs_reauth uid tbl else tbl)"
  by (auto simp: mark_token_for_reauth_def mark_token_for_reauth_try_def split: option.splits)

lemma update_idem: "update_needs_reauth uid (update_needs_reauth uid tbl) = update_needs_reauth uid tbl"
  by (induction tbl) (auto simp: update_needs_reauth_def)

lemma update_frame:
  "map (\<lambda>r. r\<lparr>NEEDS_REAUTH := None\<rparr>) (update_needs_reauth uid tbl) = map (\<lambda>r. r\<lparr>NEEDS_REAUTH := None\<rparr>) tbl"
  by (induction tbl) (auto simp: update_needs_reauth_def)

lemma select_update_other:
  assumes "u \<noteq> uid"
  shows "select_where u (update_needs_reauth uid tbl) = select_where u tbl"
  unfolding select_where_def update_needs_reauth_def
  using filter_map_other [OF _ assms, where g = "\<lambda>r. r\<lparr>NEEDS_REAUTH := Some True\<rparr>" and tbl = tbl]
  by simp

lemma select_update_same:
  "select_where uid (update_needs_reauth uid tbl)
     = map (\<lambda>r. r\<lparr>NEEDS_REAUTH := Some True\<rparr>) (select_where uid tbl)"
  unfolding select_where_def update_needs_reauth_def
  using filter_map_same [where g = "\<lambda>r. r\<lparr>NEEDS_REAUTH := Some True\<rparr>" and tbl = tbl and uid = uid]
  by simp

lemmas run_fetch = get_user_token_def get_user_token_try_def select_where_def expired_def
  decrypt_record_def decrypt_column_def decrypt_page_def mark_token_for_reauth_def
  mark_token_for_reauth_try_def update_needs_reauth_def flagged_row_def open_row_def
  damaged_row_def

text \<open>
  Claim C4. When the row that \<open>get_user_token\<close> fetches for a user has
  \<open>NEEDS_REAUTH\<close> set, the result is the reauthorization marker for every vault and
  every clock (the vault and the clock are arbitrary here, so nothing is decrypted and no
  time is compared), the table is left as it is, and no token record is ever returned;
  with a failing session the result is \<open>None\<close>. A later \<open>store_user_token\<close> that
  returns \<open>True\<close> leaves every row of the user with the flag false.
\<close>

theorem needs_reauth_is_sticky:
  assumes "fetchone (select_where uid tbl) = Some r" and "NEEDS_REAUTH r = Some True"
  shows "(connect_fault e = None \<and> execute_fault e = None \<and> close_fault e = None \<longrightarrow>
            get_user_token f sf e em uid tbl = (NeedsReauthMarker, tbl, []))
       \<and> (\<forall>rec. fst (get_user_token f sf e em uid tbl) \<noteq> TokenRecord rec)
       \<and> fst (snd (get_user_token f sf e em uid tbl)) = tbl
       \<and> (store_user_token f sf es uid mid tok ex pgs tbl = (True, tbl', shown) \<longrightarrow>
            select_where uid tbl' \<noteq> []
          \<and> (\<forall>r'\<in>set (select_where uid tbl'). NEEDS_REAUTH r' = Some False))"
proof -
  have a: "connect_fault e = None \<and> execute_fault e = None \<and> close_fault e = None \<longrightarrow>
            get_user_token f sf e em uid tbl = (NeedsReauthMarker, tbl, [])"
    using get_flagged [OF assms] by blast
  have b: "\<forall>rec. fst (get_user_token f sf e em uid tbl) \<noteq> TokenRecord rec"
    using get_never_record_if_stale [OF assms(1)] assms(2) by blast
  have c: "fst (snd (get_user_token f sf e em uid tbl)) = tbl"
    using assms
    by (auto simp: get_user_token_def get_user_token_try_def split: option.splits)
  have d: "store_user_token f sf es uid mid tok ex pgs tbl = (True, tbl', shown) \<longrightarrow>
            select_where uid tbl' \<noteq> []
          \<and> (\<forall>r'\<in>set (select_where uid tbl'). NEEDS_REAUTH r' = Some False)"
  proof
    assume "store_user_token f sf es uid mid tok ex pgs tbl = (True, tbl', shown)"
    then obtain c x p where
      t: "tbl' = merge_into sf (db_now es) uid mid (JStr c) x p tbl"
      by (auto simp: store_True_iff)
    from assms(1) have present: "select_where uid tbl \<noteq> []" by (auto simp: fetchone_Some_iff)
    show "select_where uid tbl' \<noteq> []
          \<and> (\<forall>r'\<in>set (select_where uid tbl'). NEEDS_REAUTH r' = Some False)"
      unfolding t using present by (simp add: select_merge_present)
  qed
  from a b c d show ?thesis by blast
qed

theorem needs_reauth_is_sticky_witness:
  "fetchone (select_where ''u1'' [flagged_row]) = Some flagged_row
   \<and> NEEDS_REAUTH flagged_row = Some True
   \<and> \<not> expired (TOKEN_EXPIRY flagged_row) (py_now (session_at 5))
   \<and> decrypt_token toy_fernet (ACCESS_TOKEN flagged_row) = Inl InvalidToken
   \<and> get_user_token toy_fernet plain_table (session_at 5) (session_at 5) ''u1'' [flagged_row]
       = (NeedsReauthMarker, [flagged_row], [])"
proof -
  have first: "fetchone (select_where ''u1'' [flagged_row]) = Some flagged_row"
    by (simp add: select_where_def flagged_row_def)
  have flag: "NEEDS_REAUTH flagged_row = Some True" by (simp add: flagged_row_def)
  from needs_reauth_is_sticky [OF first flag, where e = "session_at 5" and f = toy_fernet
      and sf = plain_table and em = "session_at 5"]
  show ?thesis
    by (simp add: first flag) (simp add: session_at_def flagged_row_def toy_fernet_def expired_def)
qed

text \<open>
  Claim C9. \<open>_mark_token_for_reauth\<close> is idempotent: a second call leaves the table of
  the first call (with the same session, and with any session once the first has executed
  its \<open>UPDATE\<close>). It changes no column but \<open>NEEDS_REAUTH\<close>, no row of another user,
  and sets the flag of every row of the user when its statement runs. A failure is shown
  as one message and is not raised: before the statement the table is unchanged, after it
  the flag is set. \<open>get_user_token\<close> on an expired row returns the marker together
  with whatever table and message the marking session produced.
\<close>

theorem mark_for_reauth_sets_only_the_flag:
  "fst (mark_token_for_reauth e uid (fst (mark_token_for_reauth e uid tbl)))
     = fst (mark_token_for_reauth e uid tbl)
   \<and> (connect_fault e = None \<and> execute_fault e = None \<longrightarrow>
        fst (mark_token_for_reauth e2 uid (fst (mark_token_for_reauth e uid tbl)))
          = fst (mark_token_for_reauth e uid tbl))
   \<and> map (\<lambda>r. r\<lparr>NEEDS_REAUTH := None\<rparr>) (fst (mark_token_for_reauth e uid tbl))
       = map (\<lambda>r. r\<lparr>NEEDS_REAUTH := None\<rparr>) tbl
   \<and> (\<forall>u. u \<noteq> uid \<longrightarrow>
        select_where u (fst (mark_token_for_reauth e uid tbl)) = select_where u tbl)
   \<and> (connect_fault e = None \<and> execute_fault e = None \<longrightarrow>
        select_where uid (fst (mark_token_for_reauth e uid tbl))
          = map (\<lambda>r. r\<lparr>NEEDS_REAUTH := Some True\<rparr>) (select_where uid tbl))
   \<and> (\<forall>x. connect_fault e = Some x \<or> connect_fault e = None \<and> execute_fault e = Some x \<longrightarrow>
        mark_token_for_reauth e uid tbl
          = (tbl, [''Error marking token for reauth: '' @ py_str x]))
   \<and> (\<forall>x. connect_fault e = None \<and> execute_fault e = None \<and> close_fault e = Some x \<longrightarrow>
        mark_token_for_reauth e uid tbl
          = (update_needs_reauth uid tbl, [''Error marking token for reauth: '' @ py_str x]))
   \<and> (\<forall>r s. fetchone (select_where uid tbl) = Some r \<and> NEEDS_REAUTH r \<noteq> Some True
          \<and> expired (TOKEN_EXPIRY r) (py_now s)
          \<and> connect_fault s = None \<and> execute_fault s = None \<and> close_fault s = None \<longrightarrow>
        get_user_token f sf s e uid tbl
          = (NeedsReauthMarker, mark_token_for_reauth e (USER_ID r) tbl))"
proof -
  have a: "fst (mark_token_for_reauth e uid (fst (mark_token_for_reauth e uid tbl)))
     = fst (mark_token_for_reauth e uid tbl)"
    by (simp add: mark_table update_idem)
  have b: "connect_fault e = None \<and> execute_fault e = None \<longrightarrow>
        fst (mark_token_for_reauth e2 uid (fst (mark_token_for_reauth e uid tbl)))
          = fst (mark_token_for_reauth e uid tbl)"
    by (simp add: mark_table update_idem)
  have c: "map (\<lambda>r. r\<lparr>NEEDS_REAUTH := None\<rparr>) (fst (mark_token_for_reauth e uid tbl))
       = map (\<lambda>r. r\<lparr>NEEDS_REAUTH := None\<rparr>) tbl"
    by (simp add: mark_table update_frame)
  have d: "\<forall>u. u \<noteq> uid \<longrightarrow>
        select_where u (fst (mark_token_for_reauth e uid tbl)) = select_where u tbl"
    by (simp add: mark_table select_update_other)
  have g: "connect_fault e = None \<and> execute_fault e = None \<longrightarrow>
        select_where uid (fst (mark_token_for_reauth e uid tbl))
          = map (\<lambda>r. r\<lparr>NEEDS_REAUTH := Some True\<rparr>) (select_where uid tbl)"
    by (simp add: mark_table select_update_same)
  have h: "\<forall>x. connect_fault e = Some x \<or> connect_fault e = None \<and> execute_fault e = Some x \<longrightarrow>
        mark_token_for_reauth e uid tbl
          = (tbl, [''Error marking token for reauth: '' @ py_str x])"
    by (auto simp: mark_token_for_reauth_def mark_token_for_reauth_try_def)
  have i: "\<forall>x. connect_fault e = None \<and> execute_fault e = None \<and> close_fault e = Some x \<longrightarrow>
        mark_token_for_reauth e uid tbl
          = (update_needs_reauth uid tbl, [''Error marking token for reauth: '' @ py_str x])"
    by (auto simp: mark_token_for_reauth_def mark_token_for_reauth_try_def)
  have j: "\<forall>r s. fetchone (select_where uid tbl) = Some r \<and> NEEDS_REAUTH r \<noteq> Some True
          \<and> expired (TOKEN_EXPIRY r) (py_now s)
          \<and> connect_fault s = None \<and> execute_fault s = None \<and> close_fault s = None \<longrightarrow>
        get_user_token f sf s e uid tbl
          = (NeedsReauthMarker, mark_token_for_reauth e (USER_ID r) tbl)"
    using get_expired by blast
  from a b c d g h i j show ?thesis by blast
qed

theorem mark_for_reauth_sets_only_the_flag_witness:
  "connect_fault (session_at 5) = None \<and> execute_fault (session_at 5) = None
   \<and> mark_token_for_reauth (session_at 5) ''u1'' [damaged_row] = ([flagged_row], [])
   \<and> mark_token_for_reauth offline ''u1'' [flagged_row] = ([flagged_row], [''Error marking token for reauth: 250001: could not connect''])
   \<and> mark_token_for_reauth (session_at 6) ''u1'' [flagged_row] = ([flagged_row], [])
   \<and> mark_token_for_reauth offline ''u1'' [damaged_row]
       = ([damaged_row], [''Error marking token for reauth: 250001: could not connect''])"
  using mark_for_reauth_sets_only_the_flag [where e = "session_at 5" and ?e2.0 = offline
          and uid = "''u1''" and tbl = "[damaged_row]"]
        mark_for_reauth_sets_only_the_flag [where e = offline and ?e2.0 = offline
          and uid = "''u1''" and tbl = "[damaged_row]"]
  by (simp add: run_fetch session_at_def offline_def)

section \<open>The OAuth flow: complete_oauth_flow\<close>

lemmas run_flow = complete_oauth_flow_def oauth_stages_def exchange_code_for_token_def
  get_long_lived_token_def get_user_info_def get_pages_def raise_for_status_def graph_api_def
  app_def server_error_def forbidden_def not_json_def token_manager_store_def
  recording_store_def one_page_def empty_object_def no_short_token_def no_long_token_def


lemma flow_aborts:
  assumes "oauth_stages ma requests_get code = Inl x"
  shows "complete_oauth_flow ma requests_get store uid code s
           = (JNull, s, [''Error completing OAuth flow: '' @ py_str x])"
  using assms by (simp add: complete_oauth_flow_def)

lemma flow_stores:
  assumes "oauth_stages ma requests_get code = Inr (user_info, mid, token, expires_in, pgs)"
  shows "complete_oauth_flow ma requests_get store uid code s =
           (if fst (store uid mid token expires_in pgs s)
            then JObj [(''user_info'', user_info), (''pages'', pgs)] else JNull,
            snd (store uid mid token expires_in pgs s), [])"
  using assms by (simp add: complete_oauth_flow_def split: prod.splits)

lemma remote_stage:
  "exchange_code_for_token ma requests_get code =
     (case requests_get ''https://graph.facebook.com/v18.0/oauth/access_token''
             [(''client_id'', JStr (app_id ma)), (''client_secret'', JStr (app_secret ma)),
              (''redirect_uri'', JStr (redirect_uri ma)), (''code'', JStr code)] of
        Inl x \<Rightarrow> Inl x
      | Inr response \<Rightarrow>
          if 400 \<le> status_code response \<and> status_code response < 600
          then Inl (HTTPError (status_text response)) else body response)"
  "get_long_lived_token ma requests_get short_token =
     (case requests_get ''https://graph.facebook.com/v18.0/oauth/access_token''
             [(''grant_type'', JStr ''fb_exchange_token''), (''client_id'', JStr (app_id ma)),
              (''client_secret'', JStr (app_secret ma)), (''fb_exchange_token'', short_token)] of
        Inl x \<Rightarrow> Inl x
      | Inr response \<Rightarrow>
          if 400 \<le> status_code response \<and> status_code response < 600
          then Inl (HTTPError (status_text response)) else body response)"
  "get_user_info requests_get long_lived_token =
     (case requests_get ''https://graph.facebook.com/v18.0/me''
             [(''access_token'', long_lived_token), (''fields'', JStr ''id,name,email'')] of
        Inl x \<Rightarrow> Inl x
      | Inr response \<Rightarrow>
          if 400 \<le> status_code response \<and> status_code response < 600
          then Inl (HTTPError (status_text response)) else body response)"
  "get_pages requests_get long_lived_token =
     (case requests_get ''https://graph.facebook.com/v18.0/me/accounts''
             [(''access_token'', long_lived_token),
              (''fields'', JStr ''id,name,access_token,category,instagram_business_account{id,name,username}'')] of
        Inl x \<Rightarrow> Inl x
      | Inr response \<Rightarrow>
          if status_code response = 200
          then (case body response of
                  Inl x \<Rightarrow> Inl x
                | Inr j \<Rightarrow> py_get j ''data'' (JList []))
          else Inr (JList []))"
  by (auto simp: exchange_code_for_token_def get_long_lived_token_def get_user_info_def
        get_pages_def raise_for_status_def split: sum.splits)


text \<open>
  Claim C7 as stated fails. With status 403 on the request for the pages the flow returns
  the success value with an empty page list, calls the store and shows no message. And
  the failure of a stage does not name the stage: a Graph API that leaves out the
  \<open>access_token\<close> of the short-lived token and one that leaves out that of the
  long-lived token both give \<open>None\<close> and the same message.
\<close>

theorem flow_swallows_failures:
  "status_code forbidden = 403
   \<and> complete_oauth_flow app (graph_api forbidden) (recording_store True) ''u1'' ''code'' []
     = (JObj [(''user_info'', JObj [(''id'', JStr ''fb123''), (''name'', JStr ''Ann'')]),
              (''pages'', JList [])],
        [(''u1'', JStr ''fb123'', JStr ''long-tok'', JInt 5184000, JList [])], [])
   \<and> exchange_code_for_token app no_short_token ''code'' = Inr (JObj [])
   \<and> complete_oauth_flow app no_short_token (recording_store True) ''u1'' ''code'' []
     = (JNull, [], [''Error completing OAuth flow: '' @ py_str (KeyError ''access_token'')])
   \<and> exchange_code_for_token app no_long_token ''code''
     = Inr (JObj [(''access_token'', JStr ''short-tok'')])
   \<and> get_long_lived_token app no_long_token (JStr ''short-tok'') = Inr (JObj [])
   \<and> complete_oauth_flow app no_long_token (recording_store True) ''u1'' ''code'' []
     = (JNull, [], [''Error completing OAuth flow: '' @ py_str (KeyError ''access_token'')])"
  by (simp add: run_flow)

text \<open>
  Claim C7, amended. \<open>complete_oauth_flow\<close> returns the dict of \<open>user_info\<close> and
  \<open>pages\<close> when the remote stages succeed and the store returns \<open>True\<close>; when the
  store returns \<open>False\<close> it returns \<open>None\<close>. The first exception of a remote stage
  or of a field lookup (\<open>access_token\<close>, \<open>expires_in\<close>, \<open>id\<close>) ends the stages:
  the store is not called, the message \<open>Error completing OAuth flow:\<close> with the text
  of the exception is shown, and \<open>None\<close> is returned, without a stage. In the token
  exchange, the token upgrade and the identity lookup an exception of \<open>requests.get\<close>, a
  status from 400 to 599 and a body that is not JSON are such exceptions; in
  \<open>get_pages\<close> an exception of \<open>requests.get\<close> and, with status 200, a body that is
  not JSON or not an object are, and every other status gives the empty list.
\<close>

theorem flow_returns_none_on_failure:
  "(oauth_stages ma requests_get code = Inl x \<longrightarrow>
       complete_oauth_flow ma requests_get store uid code s
         = (JNull, s, [''Error completing OAuth flow: '' @ py_str x]))
   \<and> (oauth_stages ma requests_get code = Inr (user_info, mid, long_lived_token, expires_in, pgs) \<longrightarrow>
       complete_oauth_flow ma requests_get store uid code s
         = (if fst (store uid mid long_lived_token expires_in pgs s)
            then JObj [(''user_info'', user_info), (''pages'', pgs)] else JNull,
            snd (store uid mid long_lived_token expires_in pgs s), []))
   \<and> (exchange_code_for_token ma requests_get code = Inl x \<longrightarrow>
       oauth_stages ma requests_get code = Inl x)
   \<and> (exchange_code_for_token ma requests_get code = Inr token_data
       \<and> py_getitem token_data ''access_token'' = Inl x \<longrightarrow>
       oauth_stages ma requests_get code = Inl x)
   \<and> (exchange_code_for_token ma requests_get code = Inr token_data
       \<and> py_getitem token_data ''access_token'' = Inr short_token
       \<and> get_long_lived_token ma requests_get short_token = Inl x \<longrightarrow>
       oauth_stages ma requests_get code = Inl x)
   \<and> (exchange_code_for_token ma requests_get code = Inr token_data
       \<and> py_getitem token_data ''access_token'' = Inr short_token
       \<and> get_long_lived_token ma requests_get short_token = Inr long_lived_data
       \<and> py_getitem long_lived_data ''access_token'' = Inl x \<longrightarrow>
       oauth_stages ma requests_get code = Inl x)
   \<and> (exchange_code_for_token ma requests_get code = Inr token_data
       \<and> py_getitem token_data ''access_token'' = Inr short_token
       \<and> get_long_lived_token ma requests_get short_token = Inr long_lived_data
       \<and> py_getitem long_lived_data ''access_token'' = Inr long_lived_token
       \<and> py_getitem long_lived_data ''expires_in'' = Inl x \<longrightarrow>
       oauth_stages ma requests_get code = Inl x)
   \<and> (exchange_code_for_token ma requests_get code = Inr token_data
       \<and> py_getitem token_data ''access_token'' = Inr short_token
       \<and> get_long_lived_token ma requests_get short_token = Inr long_lived_data
       \<and> py_getitem long_lived_data ''access_token'' = Inr long_lived_token
       \<and> py_getitem long_lived_data ''expires_in'' = Inr expires_in
       \<and> get_user_info requests_get long_lived_token = Inl x \<longrightarrow>
       oauth_stages ma requests_get code = Inl x)
   \<and> (exchange_code_for_token ma requests_get code = Inr token_data
       \<and> py_getitem token_data ''access_token'' = Inr short_token
       \<and> get_long_lived_token ma requests_get short_token = Inr long_lived_data
       \<and> py_getitem long_lived_data ''access_token'' = Inr long_lived_token
       \<and> py_getitem long_lived_data ''expires_in'' = Inr expires_in
       \<and> get_user_info requests_get long_lived_token = Inr user_info
       \<and> py_getitem user_info ''id'' = Inl x \<longrightarrow>
       oauth_stages ma requests_get code = Inl x)
   \<and> (exchange_code_for_token ma requests_get code = Inr token_data
       \<and> py_getitem token_data ''access_token'' = Inr short_token
       \<and> get_long_lived_token ma requests_get short_token = Inr long_lived_data
       \<and> py_getitem long_lived_data ''access_token'' = Inr long_lived_token
       \<and> py_getitem long_lived_data ''expires_in'' = Inr expires_in
       \<and> get_user_info requests_get long_lived_token = Inr user_info
       \<and> py_getitem user_info ''id'' = Inr mid
       \<and> get_pages requests_get long_lived_token = Inl x \<longrightarrow>
       oauth_stages ma requests_get code = Inl x)
   \<and> (exchange_code_for_token ma requests_get code = Inr token_data
       \<and> py_getitem token_data ''access_token'' = Inr short_token
       \<and> get_long_lived_token ma requests_get short_token = Inr long_lived_data
       \<and> py_getitem long_lived_data ''access_token'' = Inr long_lived_token
       \<and> py_getitem long_lived_data ''expires_in'' = Inr expires_in
       \<and> get_user_info requests_get long_lived_token = Inr user_info
       \<and> py_getitem user_info ''id'' = Inr mid
       \<and> get_pages requests_get long_lived_token = Inr pgs \<longrightarrow>
       oauth_stages ma requests_get code
         = Inr (user_info, mid, long_lived_token, expires_in, pgs))
   \<and> exchange_code_for_token ma requests_get code =
       (case requests_get ''https://graph.facebook.com/v18.0/oauth/access_token''
               [(''client_id'', JStr (app_id ma)), (''client_secret'', JStr (app_secret ma)),
                (''redirect_uri'', JStr (redirect_uri ma)), (''code'', JStr code)] of
          Inl x \<Rightarrow> Inl x
        | Inr response \<Rightarrow>
            if 400 \<le> status_code response \<and> status_code response < 600
            then Inl (HTTPError (status_text response)) else body response)
   \<and> get_long_lived_token ma requests_get short_token =
       (case requests_get ''https://graph.facebook.com/v18.0/oauth/access_token''
               [(''grant_type'', JStr ''fb_exchange_token''), (''client_id'', JStr (app_id ma)),
                (''client_secret'', JStr (app_secret ma)), (''fb_exchange_token'', short_token)] of
          Inl x \<Rightarrow> Inl x
        | Inr response \<Rightarrow>
            if 400 \<le> status_code response \<and> status_code response < 600
            then Inl (HTTPError (status_text response)) else body response)
   \<and> get_user_info requests_get long_lived_token =
       (case requests_get ''https://graph.facebook.com/v18.0/me''
               [(''access_token'', long_lived_token), (''fields'', JStr ''id,name,email'')] of
          Inl x \<Rightarrow> Inl x
        | Inr response \<Rightarrow>
            if 400 \<le> status_code response \<and> status_code response < 600
            then Inl (HTTPError (status_text response)) else body response)
   \<and> get_pages requests_get long_lived_token =
       (case requests_get ''https://graph.facebook.com/v18.0/me/accounts''
               [(''access_token'', long_lived_token),
                (''fields'', JStr ''id,name,access_token,category,instagram_business_account{id,name,username}'')] of
          Inl x \<Rightarrow> Inl x
        | Inr response \<Rightarrow>
            if status_code response = 200
            then (case body response of
                    Inl x \<Rightarrow> Inl x
                  | Inr j \<Rightarrow> py_get j ''data'' (JList []))
            else Inr (JList []))"
proof -
  have s0: "(exchange_code_for_token ma requests_get code = Inl x \<longrightarrow>
       oauth_stages ma requests_get code = Inl x)"
    by (simp add: oauth_stages_def)
  have s1: "(exchange_code_for_token ma requests_get code = Inr token_data
       \<and> py_getitem token_data ''access_token'' = Inl x \<longrightarrow>
       oauth_stages ma requests_get code = Inl x)"
    by (simp add: oauth_stages_def)
  have s2: "(exchange_code_for_token ma requests_get code = Inr token_data
       \<and> py_getitem token_data ''access_token'' = Inr short_token
       \<and> get_long_lived_token ma requests_get short_token = Inl x \<longrightarrow>
       oauth_stages ma requests_get code = Inl x)"
    by (simp add: oauth_stages_def)
  have s3: "(exchange_code_for_token ma requests_get code = Inr token_data
       \<and> py_getitem token_data ''access_token'' = Inr short_token
       \<and> get_long_lived_token ma requests_get short_token = Inr long_lived_data
       \<and> py_getitem long_lived_data ''access_token'' = Inl x \<longrightarrow>
       oauth_stages ma requests_get code = Inl x)"
    by (simp add: oauth_stages_def)
  have s4: "(exchange_code_for_token ma requests_get code = Inr token_data
       \<and> py_getitem token_data ''access_token'' = Inr short_token
       \<and> get_long_lived_token ma requests_get short_token = Inr long_lived_data
       \<and> py_getitem long_lived_data ''access_token'' = Inr long_lived_token
       \<and> py_getitem long_lived_data ''expires_in'' = Inl x \<longrightarrow>
       oauth_stages ma requests_get code = Inl x)"
    by (simp add: oauth_stages_def)
  have s5: "(exchange_code_for_token ma requests_get code = Inr token_data
       \<and> py_getitem token_data ''access_token'' = Inr short_token
       \<and> get_long_lived_token ma requests_get short_token = Inr long_lived_data
       \<and> py_getitem long_lived_data ''access_token'' = Inr long_lived_token
       \<and> py_getitem long_lived_data ''expires_in'' = Inr expires_in
       \<and> get_user_info requests_get long_lived_token = Inl x \<longrightarrow>
       oauth_stages ma requests_get code = Inl x)"
    by (simp add: oauth_stages_def)
  have s6: "(exchange_code_for_token ma requests_get code = Inr token_data
       \<and> py_getitem token_data ''access_token'' = Inr short_token
       \<and> get_long_lived_token ma requests_get short_token = Inr long_lived_data
       \<and> py_getitem long_lived_data ''access_token'' = Inr long_lived_token
       \<and> py_getitem long_lived_data ''expires_in'' = Inr expires_in
       \<and> get_user_info requests_get long_lived_token = Inr user_info
       \<and> py_getitem user_info ''id'' = Inl x \<longrightarrow>
       oauth_stages ma requests_get code = Inl x)"
    by (simp add: oauth_stages_def)
  have s7: "(exchange_code_for_token ma requests_get code = Inr token_data
       \<and> py_getitem token_data ''access_token'' = Inr short_token
       \<and> get_long_lived_token ma requests_get short_token = Inr long_lived_data
       \<and> py_getitem long_lived_data ''access_token'' = Inr long_lived_token
       \<and> py_getitem long_lived_data ''expires_in'' = Inr expires_in
       \<and> get_user_info requests_get long_lived_token = Inr user_info
       \<and> py_getitem user_info ''id'' = Inr mid
       \<and> get_pages requests_get long_lived_token = Inl x \<longrightarrow>
       oauth_stages ma requests_get code = Inl x)"
    by (simp add: oauth_stages_def)
  have s8: "(exchange_code_for_token ma requests_get code = Inr token_data
       \<and> py_getitem token_data ''access_token'' = Inr short_token
       \<and> get_long_lived_token ma requests_get short_token = Inr long_lived_data
       \<and> py_getitem long_lived_data ''access_token'' = Inr long_lived_token
       \<and> py_getitem long_lived_data ''expires_in'' = Inr expires_in
       \<and> get_user_info requests_get long_lived_token = Inr user_info
       \<and> py_getitem user_info ''id'' = Inr mid
       \<and> get_pages requests_get long_lived_token = Inr pgs \<longrightarrow>
       oauth_stages ma requests_get code
         = Inr (user_info, mid, long_lived_token, expires_in, pgs))"
    by (simp add: oauth_stages_def)
  have f1: "(oauth_stages ma requests_get code = Inl x \<longrightarrow>
       complete_oauth_flow ma requests_get store uid code s
         = (JNull, s, [''Error completing OAuth flow: '' @ py_str x]))"
    by (simp add: flow_aborts)
  have f2: "(oauth_stages ma requests_get code = Inr (user_info, mid, long_lived_token, expires_in, pgs) \<longrightarrow>
       complete_oauth_flow ma requests_get store uid code s
         = (if fst (store uid mid long_lived_token expires_in pgs s)
            then JObj [(''user_info'', user_info), (''pages'', pgs)] else JNull,
            snd (store uid mid long_lived_token expires_in pgs s), []))"
    by (simp add: flow_stores)
  from f1 f2 s0 s1 s2 s3 s4 s5 s6 s7 s8
  show ?thesis by (intro conjI) (assumption | rule remote_stage)+
qed

theorem flow_returns_none_on_failure_witness:
  "oauth_stages app (graph_api one_page) ''code''
     = Inr (JObj [(''id'', JStr ''fb123''), (''name'', JStr ''Ann'')], JStr ''fb123'',
            JStr ''long-tok'', JInt 5184000, JList [page_one])
   \<and> complete_oauth_flow app (graph_api one_page) (recording_store True) ''u1'' ''code'' []
     = (JObj [(''user_info'', JObj [(''id'', JStr ''fb123''), (''name'', JStr ''Ann'')]),
              (''pages'', JList [page_one])],
        [(''u1'', JStr ''fb123'', JStr ''long-tok'', JInt 5184000, JList [page_one])], [])
   \<and> complete_oauth_flow app (graph_api one_page) (recording_store False) ''u1'' ''code'' []
     = (JNull, [(''u1'', JStr ''fb123'', JStr ''long-tok'', JInt 5184000, JList [page_one])], [])
   \<and> oauth_stages app (graph_api not_json) ''code''
     = Inl (JSONDecodeError ''Expecting value: line 1 column 1 (char 0)'')
   \<and> complete_oauth_flow app (graph_api not_json) (recording_store True) ''u1'' ''code'' []
     = (JNull, [], [''Error completing OAuth flow: Expecting value: line 1 column 1 (char 0)''])"
proof -
  have good: "oauth_stages app (graph_api one_page) ''code''
     = Inr (JObj [(''id'', JStr ''fb123''), (''name'', JStr ''Ann'')], JStr ''fb123'',
            JStr ''long-tok'', JInt 5184000, JList [page_one])"
    by (simp add: run_flow)
  have bad: "oauth_stages app (graph_api not_json) ''code''
     = Inl (JSONDecodeError ''Expecting value: line 1 column 1 (char 0)'')"
    by (simp add: run_flow)
  from flow_returns_none_on_failure [where ma = app and requests_get = "graph_api one_page"
      and code = "''code''" and uid = "''u1''" and s = "[]" and store = "recording_store True"
      and user_info = "JObj [(''id'', JStr ''fb123''), (''name'', JStr ''Ann'')]"
      and mid = "JStr ''fb123''" and long_lived_token = "JStr ''long-tok''"
      and expires_in = "JInt 5184000" and pgs = "JList [page_one]"]
    flow_returns_none_on_failure [where ma = app and requests_get = "graph_api one_page"
      and code = "''code''" and uid = "''u1''" and s = "[]" and store = "recording_store False"
      and user_info = "JObj [(''id'', JStr ''fb123''), (''name'', JStr ''Ann'')]"
      and mid = "JStr ''fb123''" and long_lived_token = "JStr ''long-tok''"
      and expires_in = "JInt 5184000" and pgs = "JList [page_one]"]
    flow_returns_none_on_failure [where ma = app and requests_get = "graph_api not_json"
      and code = "''code''" and uid = "''u1''" and s = "[]" and store = "recording_store True"
      and x = "JSONDecodeError ''Expecting value: line 1 column 1 (char 0)''"]
  show ?thesis
    by (simp add: good bad recording_store_def)
qed

section \<open>Pages of a stored record\<close>

lemma dict_set_present:
  assumes "map_of m k = Some w"
  shows "dict_set k v m = map (\<lambda>kv. if fst kv = k then (k, v) else kv) m"
proof -
  from assms have "k \<in> set (map fst m)" by (metis map_of_eq_None_iff option.distinct(1) set_map)
  then show ?thesis by (simp add: dict_set_def)
qed

lemma contains_iff: "py_contains k (JObj m) = Inr (map_of m k \<noteq> None)"
  by (simp add: map_of_eq_None_iff)

lemma encrypt_page_dict:
  "encrypt_page f n (JObj m) =
     (case map_of m ''access_token'' of
        None \<Rightarrow> Inr (JObj m, n)
      | Some v \<Rightarrow>
          (case encrypt_token f n v of
             Inl x \<Rightarrow> Inl x
           | Inr c \<Rightarrow> Inr (JObj (map (\<lambda>kv. if fst kv = ''access_token''
                                            then (''access_token'', JStr c) else kv) m), Suc n)))"
proof (cases "map_of m ''access_token''")
  case None
  then show ?thesis by (simp add: encrypt_page_def contains_iff del: py_contains.simps)
next
  case (Some v)
  then show ?thesis
    by (cases "encrypt_token f n v")
       (simp_all add: encrypt_page_def contains_iff dict_set_present del: py_contains.simps)
qed

lemma encrypt_token_fails: "(\<forall>t. v \<noteq> JStr t) \<Longrightarrow> encrypt_token f n v = Inl (no_attribute v ''encode'')"
  by (cases v) simp_all

lemma encrypt_pages_fail:
  assumes "JObj m \<in> set l" and "map_of m ''access_token'' = Some v" and "\<forall>t. v \<noteq> JStr t"
  shows "\<exists>x. encrypt_pages f n l = Inl x"
  using assms(1)
proof (induction l arbitrary: n)
  case Nil
  then show ?case by simp
next
  case (Cons page rest)
  show ?case
  proof (cases "encrypt_page f n page")
    case (Inl x)
    then show ?thesis by simp
  next
    case (Inr pn)
    with assms(2,3) have "page \<noteq> JObj m"
      by (auto simp: encrypt_page_dict encrypt_token_fails)
    with Cons.prems have "JObj m \<in> set rest" by simp
    from Cons.IH [OF this, of "snd pn"] obtain x where "encrypt_pages f (snd pn) rest = Inl x" ..
    with Inr show ?thesis by simp
  qed
qed

lemma encrypt_pages_dicts:
  assumes "\<forall>page\<in>set l. \<exists>m. page = JObj m
              \<and> (\<forall>v. map_of m ''access_token'' = Some v \<longrightarrow> (\<exists>t. v = JStr t))"
  shows "\<exists>q. encrypt_pages f n l = Inr q \<and> length q = length l
           \<and> (\<forall>i<length l. \<forall>m. l ! i = JObj m \<longrightarrow>
                 (map_of m ''access_token'' = None \<longrightarrow> q ! i = JObj m)
               \<and> (\<forall>t. map_of m ''access_token'' = Some (JStr t) \<longrightarrow>
                     q ! i = JObj (map (\<lambda>kv. if fst kv = ''access_token''
                        then (''access_token'',
                              JStr (encrypt f (n + length (filter (\<lambda>page. case page of
                                  JObj m' \<Rightarrow> map_of m' ''access_token'' \<noteq> None | _ \<Rightarrow> False)
                                  (take i l))) t))
                        else kv) m)))"
  using assms
proof (induction l arbitrary: n)
  case Nil
  then show ?case by simp
next
  case (Cons page rest)
  let ?has = "\<lambda>page. case page of JObj m' \<Rightarrow> map_of m' ''access_token'' \<noteq> None | _ \<Rightarrow> False"
  from Cons.prems obtain m0 where page: "page = JObj m0"
    and str: "\<forall>v. map_of m0 ''access_token'' = Some v \<longrightarrow> (\<exists>t. v = JStr t)" by auto
  from Cons.prems have rest: "\<forall>page\<in>set rest. \<exists>m. page = JObj m
              \<and> (\<forall>v. map_of m ''access_token'' = Some v \<longrightarrow> (\<exists>t. v = JStr t))" by simp
  define n' where "n' = (if ?has page then Suc n else n)"
  define p' where "p' = (case map_of m0 ''access_token'' of None \<Rightarrow> JObj m0
      | Some v \<Rightarrow> (case v of JStr t \<Rightarrow> JObj (map (\<lambda>kv. if fst kv = ''access_token''
                        then (''access_token'', JStr (encrypt f n t)) else kv) m0) | _ \<Rightarrow> JNull))"
  have first: "encrypt_page f n page = Inr (p', n')"
    using str by (auto simp: page encrypt_page_dict n'_def p'_def split: option.splits)
  from Cons.IH [OF rest, of n'] obtain q where
    q: "encrypt_pages f n' rest = Inr q" and len: "length q = length rest" and
    pt: "\<forall>i<length rest. \<forall>m. rest ! i = JObj m \<longrightarrow>
                 (map_of m ''access_token'' = None \<longrightarrow> q ! i = JObj m)
               \<and> (\<forall>t. map_of m ''access_token'' = Some (JStr t) \<longrightarrow>
                     q ! i = JObj (map (\<lambda>kv. if fst kv = ''access_token''
                        then (''access_token'',
                              JStr (encrypt f (n' + length (filter ?has (take i rest))) t))
                        else kv) m))"
    by blast
  have all: "encrypt_pages f n (page # rest) = Inr (p' # q)" by (simp add: first q)
  have point: "\<forall>i<length (page # rest). \<forall>m. (page # rest) ! i = JObj m \<longrightarrow>
                 (map_of m ''access_token'' = None \<longrightarrow> (p' # q) ! i = JObj m)
               \<and> (\<forall>t. map_of m ''access_token'' = Some (JStr t) \<longrightarrow>
                     (p' # q) ! i = JObj (map (\<lambda>kv. if fst kv = ''access_token''
                        then (''access_token'',
                              JStr (encrypt f (n + length (filter ?has (take i (page # rest)))) t))
                        else kv) m))"
  proof (intro allI impI)
    fix i m
    assume i: "i < length (page # rest)" and m: "(page # rest) ! i = JObj m"
    show "(map_of m ''access_token'' = None \<longrightarrow> (p' # q) ! i = JObj m)
               \<and> (\<forall>t. map_of m ''access_token'' = Some (JStr t) \<longrightarrow>
                     (p' # q) ! i = JObj (map (\<lambda>kv. if fst kv = ''access_token''
                        then (''access_token'',
                              JStr (encrypt f (n + length (filter ?has (take i (page # rest)))) t))
                        else kv) m))"
    proof (cases i)
      case 0
      with m page have "m = m0" by simp
      then show ?thesis using 0 by (auto simp: p'_def)
    next
      case (Suc j)
      with i m have j: "j < length rest" and mj: "rest ! j = JObj m" by simp_all
      have idx: "n + length (filter ?has (take i (page # rest)))
                 = n' + length (filter ?has (take j rest))"
        by (simp add: Suc n'_def del: not_None_eq)
      from pt j mj show ?thesis unfolding idx by (simp add: Suc)
    qed
  qed
  from all len point show ?case by (intro exI [of _ "p' # q"]) simp
qed

lemma timedelta_in_range:
  assumes "0 \<le> t" and "t \<le> datetime_max"
    and "0 \<le> t + n * 1000000" and "t + n * 1000000 \<le> datetime_max"
  shows "timedelta_seconds (JInt n) = Inr (n * 1000000)"
proof -
  from assms have lo: "- 315537897600 \<le> n" and hi: "n \<le> 315537897600"
    by (simp_all add: datetime_max_def)
  have "n div 86400 \<le> 315537897600 div 86400" using hi by (rule zdiv_mono1) simp
  moreover have "(- 315537897600) div 86400 \<le> n div 86400" using lo by (rule zdiv_mono1) simp
  ultimately have "- 3652059 \<le> n div 86400" and "n div 86400 \<le> 3652059" by simp_all
  then show ?thesis by simp
qed

lemma store_prepare_ok:
  assumes "connect_fault e = None"
    and "0 \<le> py_now e" and "py_now e \<le> datetime_max"
    and "0 \<le> py_now e + n * 1000000" and "py_now e + n * 1000000 \<le> datetime_max"
    and "encrypt_pages f 1 l = Inr q"
  shows "store_prepare f e (JStr t) (JInt n) (JList l)
           = Inr (encrypt f 0 t, py_now e + n * 1000000, if l = [] then JNull else JList q)"
  using assms timedelta_in_range [OF assms(2-5)]
  by (simp add: store_prepare_def raise_if_def datetime_add_def)

lemma store_aborts:
  assumes "store_prepare f e tok ex pgs = Inl x"
  shows "store_user_token f sf e uid mid tok ex pgs tbl
           = (False, tbl, [''Error storing token: '' @ py_str x])"
  using assms by (simp add: store_user_token_def store_user_token_try_def)

lemma store_runs:
  assumes "store_prepare f e tok ex pgs = Inr (c, x, p)" and "execute_fault e = None"
  shows "store_user_token f sf e uid mid tok ex pgs tbl =
           (close_fault e = None, merge_into sf (db_now e) uid mid (JStr c) x p tbl,
            case close_fault e of None \<Rightarrow> [] | Some y \<Rightarrow> [''Error storing token: '' @ py_str y])"
  using assms
  by (auto simp: store_user_token_def store_user_token_try_def Let_def split: option.splits)

lemma store_execute_fault:
  assumes "execute_fault e \<noteq> None"
  shows "\<exists>msg. store_user_token f sf e uid mid tok ex pgs tbl = (False, tbl, [msg])"
  using assms
  by (auto simp: store_user_token_def store_user_token_try_def Let_def
           split: option.splits sum.splits)

lemma prepare_connect_fault:
  "connect_fault e = Some x \<Longrightarrow> store_prepare f e tok ex pgs = Inl x"
  by (simp add: store_prepare_def raise_if_def)

lemma prepare_token_fault:
  "connect_fault e = None \<Longrightarrow> \<forall>t. tok \<noteq> JStr t \<Longrightarrow>
   store_prepare f e tok ex pgs = Inl (no_attribute tok ''encode'')"
  by (simp add: store_prepare_def raise_if_def encrypt_token_fails)

lemma prepare_expiry_fault:
  assumes "ex = JInt n"
    and "py_now e + n * 1000000 < 0 \<or> datetime_max < py_now e + n * 1000000"
  shows "\<exists>x. store_prepare f e tok ex pgs = Inl x"
proof (cases "store_prepare f e tok ex pgs")
  case (Inl x)
  then show ?thesis by blast
next
  case (Inr r)
  then obtain c x p where "store_prepare f e tok (JInt n) pgs = Inr (c, x, p)"
    using assms(1) by (cases r) auto
  from store_prepare_Inr(3) [OF this] store_prepare_expiry [OF this] assms(2)
  show ?thesis by (auto simp: datetime_add_def split: if_splits)
qed

lemma prepare_lifetime_fault:
  assumes "\<forall>n. ex \<noteq> JInt n" and "\<forall>b. ex \<noteq> JBool b"
  shows "\<exists>x. store_prepare f e tok ex pgs = Inl x"
proof -
  from assms have "\<exists>x. timedelta_seconds ex = Inl x" by (cases ex) auto
  then show ?thesis
    by (cases "connect_fault e"; cases "encrypt_token f 0 tok")
       (auto simp: store_prepare_def raise_if_def)
qed

lemma prepare_page_fault:
  assumes "pgs = JList l" and "JObj m \<in> set l" and "map_of m ''access_token'' = Some v"
    and "\<forall>t. v \<noteq> JStr t"
  shows "\<exists>x. store_prepare f e tok ex pgs = Inl x"
proof (cases "store_prepare f e tok ex pgs")
  case (Inl x)
  then show ?thesis by blast
next
  case (Inr r)
  from encrypt_pages_fail [OF assms(2-4)] obtain x where x: "encrypt_pages f 1 l = Inl x" ..
  from assms(2) have "l \<noteq> []" by auto
  with Inr x assms(1) have False
    by (simp add: store_prepare_def then_do_Inr_iff)
  then show ?thesis ..
qed

lemma store_succeeds:
  assumes "connect_fault e = None" and "execute_fault e = None"
    and "0 \<le> py_now e \<and> py_now e \<le> datetime_max"
    and "0 \<le> py_now e + n * 1000000 \<and> py_now e + n * 1000000 \<le> datetime_max"
    and "\<forall>page\<in>set l. \<exists>m. page = JObj m
              \<and> (\<forall>v. map_of m ''access_token'' = Some v \<longrightarrow> (\<exists>t. v = JStr t))"
  shows "\<exists>q. store_user_token f sf e uid mid (JStr t) (JInt n) (JList l) tbl
             = (close_fault e = None,
                merge_into sf (db_now e) uid mid (JStr (encrypt f 0 t)) (py_now e + n * 1000000)
                  (if l = [] then JNull else JList q) tbl,
                case close_fault e of None \<Rightarrow> []
                | Some y \<Rightarrow> [''Error storing token: '' @ py_str y])
           \<and> length q = length l
           \<and> (\<forall>i<length l. \<forall>m. l ! i = JObj m \<longrightarrow>
               (map_of m ''access_token'' = None \<longrightarrow> q ! i = JObj m)
             \<and> (\<forall>t. map_of m ''access_token'' = Some (JStr t) \<longrightarrow>
                   q ! i = JObj (map (\<lambda>kv. if fst kv = ''access_token''
                      then (''access_token'',
                            JStr (encrypt f (1 + length (filter (\<lambda>page. case page of
                                JObj m' \<Rightarrow> map_of m' ''access_token'' \<noteq> None | _ \<Rightarrow> False)
                                (take i l))) t))
                      else kv) m)))"
proof -
  from encrypt_pages_dicts [OF assms(5), of f 1] obtain q where
    q: "encrypt_pages f 1 l = Inr q" and len: "length q = length l"
    and pt: "(\<forall>i<length l. \<forall>m. l ! i = JObj m \<longrightarrow>
               (map_of m ''access_token'' = None \<longrightarrow> q ! i = JObj m)
             \<and> (\<forall>t. map_of m ''access_token'' = Some (JStr t) \<longrightarrow>
                   q ! i = JObj (map (\<lambda>kv. if fst kv = ''access_token''
                      then (''access_token'',
                            JStr (encrypt f (1 + length (filter (\<lambda>page. case page of
                                JObj m' \<Rightarrow> map_of m' ''access_token'' \<noteq> None | _ \<Rightarrow> False)
                                (take i l))) t))
                      else kv) m)))"
    by blast
  from assms(3,4) have prep: "store_prepare f e (JStr t) (JInt n) (JList l)
           = Inr (encrypt f 0 t, py_now e + n * 1000000, if l = [] then JNull else JList q)"
    by (intro store_prepare_ok assms(1) q) simp_all
  from store_runs [OF prep assms(2)] len pt show ?thesis by blast
qed

section \<open>What the upsert stores and reports\<close>

lemmas run_more = page_two_def page_three_def page_with_number_def drops_on_close_def
  damaged_open_row_def damaged_page_row_def two_page_row_def text_connector_def

text \<open>
  Claim C6 as stated fails in its last part. When only \<open>conn.close()\<close> raises, after
  the \<open>MERGE\<close> has been executed, \<open>store_user_token\<close> returns \<open>False\<close> and the
  row is in the table: \<open>False\<close> does not mean that nothing was saved.
\<close>

theorem close_failure_after_write:
  "close_fault drops_on_close = Some (DatabaseError ''connection reset'')
   \<and> store_user_token toy_fernet plain_table drops_on_close ''u1'' (JStr ''fb123'')
       (JStr ''tok-abc'') (JInt 3600) JNull []
     = (False,
        [\<lparr>USER_ID = ''u1'', META_USER_ID = JStr ''fb123'', ACCESS_TOKEN = JStr ''gAAAAA|tok-abc'',
          TOKEN_EXPIRY = Some 3600001000, PAGES = JNull, LAST_REFRESHED = None,
          NEEDS_REAUTH = None\<rparr>],
        [''Error storing token: connection reset''])"
  by (simp add: run_store run_more)

text \<open>
  Claim C6, amended. \<open>store_user_token\<close> never raises; it returns a boolean. It returns
  \<open>False\<close>, shows one message and leaves the table unchanged when the connection
  fails, when the token is not a string, when the lifetime is not a number or the expiry
  falls outside the range of \<open>datetime\<close>, when the token of a page is not a string,
  and when \<open>cursor.execute\<close> fails. With a working connection and statement, a valid
  clock and expiry and pages that are dicts with string tokens, the \<open>MERGE\<close> is
  executed with the encrypted token, the expiry and the pages with every page token
  encrypted by its own call of the vault; the result is then \<open>True\<close> without a
  message, or \<open>False\<close> with one message when only \<open>conn.close()\<close> raised, the row
  being written in both cases. \<open>True\<close> is returned only when no step failed and the
  rows of the user carry the Meta user id, the encrypted token and the expiry of this
  call.
\<close>

theorem store_user_token_reports_failure:
  "(connect_fault e = Some x \<longrightarrow>
      store_user_token f sf e uid mid tok ex pgs tbl
        = (False, tbl, [''Error storing token: '' @ py_str x]))
   \<and> (connect_fault e = None \<and> (\<forall>t. tok \<noteq> JStr t) \<longrightarrow>
      store_user_token f sf e uid mid tok ex pgs tbl
        = (False, tbl, [''Error storing token: '' @ py_str (no_attribute tok ''encode'')]))
   \<and> (ex = JInt n \<and> (py_now e + n * 1000000 < 0 \<or> datetime_max < py_now e + n * 1000000)
      \<or> (\<forall>n. ex \<noteq> JInt n) \<and> (\<forall>b. ex \<noteq> JBool b) \<longrightarrow>
      (\<exists>msg. store_user_token f sf e uid mid tok ex pgs tbl = (False, tbl, [msg])))
   \<and> (pgs = JList l \<and> JObj m \<in> set l \<and> map_of m ''access_token'' = Some v
      \<and> (\<forall>t. v \<noteq> JStr t) \<longrightarrow>
      (\<exists>msg. store_user_token f sf e uid mid tok ex pgs tbl = (False, tbl, [msg])))
   \<and> (execute_fault e \<noteq> None \<longrightarrow>
      (\<exists>msg. store_user_token f sf e uid mid tok ex pgs tbl = (False, tbl, [msg])))
   \<and> (connect_fault e = None \<and> execute_fault e = None
      \<and> 0 \<le> py_now e \<and> py_now e \<le> datetime_max
      \<and> 0 \<le> py_now e + n * 1000000 \<and> py_now e + n * 1000000 \<le> datetime_max
      \<and> (\<forall>page\<in>set l. \<exists>m. page = JObj m
              \<and> (\<forall>v. map_of m ''access_token'' = Some v \<longrightarrow> (\<exists>t. v = JStr t))) \<longrightarrow>
      (\<exists>q. store_user_token f sf e uid mid (JStr t) (JInt n) (JList l) tbl
             = (close_fault e = None,
                merge_into sf (db_now e) uid mid (JStr (encrypt f 0 t)) (py_now e + n * 1000000)
                  (if l = [] then JNull else JList q) tbl,
                case close_fault e of None \<Rightarrow> []
                | Some y \<Rightarrow> [''Error storing token: '' @ py_str y])
           \<and> length q = length l
           \<and> (\<forall>i<length l. \<forall>m. l ! i = JObj m \<longrightarrow>
               (map_of m ''access_token'' = None \<longrightarrow> q ! i = JObj m)
             \<and> (\<forall>t. map_of m ''access_token'' = Some (JStr t) \<longrightarrow>
                   q ! i = JObj (map (\<lambda>kv. if fst kv = ''access_token''
                      then (''access_token'',
                            JStr (encrypt f (1 + length (filter (\<lambda>page. case page of
                                JObj m' \<Rightarrow> map_of m' ''access_token'' \<noteq> None | _ \<Rightarrow> False)
                                (take i l))) t))
                      else kv) m)))
           \<and> select_where uid (merge_into sf (db_now e) uid mid (JStr (encrypt f 0 t))
                  (py_now e + n * 1000000) (if l = [] then JNull else JList q) tbl) \<noteq> []))
   \<and> (case store_user_token f sf e uid mid tok ex pgs tbl of
      (success, tbl', shown) \<Rightarrow>
        (success \<longrightarrow>
           connect_fault e = None \<and> execute_fault e = None \<and> close_fault e = None
         \<and> shown = []
         \<and> (\<exists>t. tok = JStr t \<and> select_where uid tbl' \<noteq> []
              \<and> (\<forall>r\<in>set (select_where uid tbl').
                    META_USER_ID r = mid \<and> ACCESS_TOKEN r = JStr (encrypt f 0 t)
                  \<and> (\<forall>n. ex = JInt n \<longrightarrow> TOKEN_EXPIRY r = Some (py_now e + n * 1000000)))))
      \<and> (\<not> success \<longrightarrow> length shown = 1))"
proof -
  have a: "(connect_fault e = Some x \<longrightarrow>
      store_user_token f sf e uid mid tok ex pgs tbl
        = (False, tbl, [''Error storing token: '' @ py_str x]))"
    by (simp add: store_aborts prepare_connect_fault)
  have b: "(connect_fault e = None \<and> (\<forall>t. tok \<noteq> JStr t) \<longrightarrow>
      store_user_token f sf e uid mid tok ex pgs tbl
        = (False, tbl, [''Error storing token: '' @ py_str (no_attribute tok ''encode'')]))"
    by (simp add: store_aborts prepare_token_fault)
  have c: "(ex = JInt n \<and> (py_now e + n * 1000000 < 0 \<or> datetime_max < py_now e + n * 1000000)
      \<or> (\<forall>n. ex \<noteq> JInt n) \<and> (\<forall>b. ex \<noteq> JBool b) \<longrightarrow>
      (\<exists>msg. store_user_token f sf e uid mid tok ex pgs tbl = (False, tbl, [msg])))"
    using prepare_expiry_fault [of ex n e f tok pgs] prepare_lifetime_fault [of ex f e tok pgs]
    by (auto simp: store_aborts)
  have d: "(pgs = JList l \<and> JObj m \<in> set l \<and> map_of m ''access_token'' = Some v
      \<and> (\<forall>t. v \<noteq> JStr t) \<longrightarrow>
      (\<exists>msg. store_user_token f sf e uid mid tok ex pgs tbl = (False, tbl, [msg])))"
    using prepare_page_fault [of pgs l m v f e tok ex] by (auto simp: store_aborts)
  have e: "(execute_fault e \<noteq> None \<longrightarrow>
      (\<exists>msg. store_user_token f sf e uid mid tok ex pgs tbl = (False, tbl, [msg])))"
    using store_execute_fault by blast
  have g: "(connect_fault e = None \<and> execute_fault e = None
      \<and> 0 \<le> py_now e \<and> py_now e \<le> datetime_max
      \<and> 0 \<le> py_now e + n * 1000000 \<and> py_now e + n * 1000000 \<le> datetime_max
      \<and> (\<forall>page\<in>set l. \<exists>m. page = JObj m
              \<and> (\<forall>v. map_of m ''access_token'' = Some v \<longrightarrow> (\<exists>t. v = JStr t))) \<longrightarrow>
      (\<exists>q. store_user_token f sf e uid mid (JStr t) (JInt n) (JList l) tbl
             = (close_fault e = None,
                merge_into sf (db_now e) uid mid (JStr (encrypt f 0 t)) (py_now e + n * 1000000)
                  (if l = [] then JNull else JList q) tbl,
                case close_fault e of None \<Rightarrow> []
                | Some y \<Rightarrow> [''Error storing token: '' @ py_str y])
           \<and> length q = length l
           \<and> (\<forall>i<length l. \<forall>m. l ! i = JObj m \<longrightarrow>
               (map_of m ''access_token'' = None \<longrightarrow> q ! i = JObj m)
             \<and> (\<forall>t. map_of m ''access_token'' = Some (JStr t) \<longrightarrow>
                   q ! i = JObj (map (\<lambda>kv. if fst kv = ''access_token''
                      then (''access_token'',
                            JStr (encrypt f (1 + length (filter (\<lambda>page. case page of
                                JObj m' \<Rightarrow> map_of m' ''access_token'' \<noteq> None | _ \<Rightarrow> False)
                                (take i l))) t))
                      else kv) m)))
           \<and> select_where uid (merge_into sf (db_now e) uid mid (JStr (encrypt f 0 t))
                  (py_now e + n * 1000000) (if l = [] then JNull else JList q) tbl) \<noteq> []))"
  proof
    assume asm: "connect_fault e = None \<and> execute_fault e = None
      \<and> 0 \<le> py_now e \<and> py_now e \<le> datetime_max
      \<and> 0 \<le> py_now e + n * 1000000 \<and> py_now e + n * 1000000 \<le> datetime_max
      \<and> (\<forall>page\<in>set l. \<exists>m. page = JObj m
              \<and> (\<forall>v. map_of m ''access_token'' = Some v \<longrightarrow> (\<exists>t. v = JStr t)))"
    then have "\<exists>q. store_user_token f sf e uid mid (JStr t) (JInt n) (JList l) tbl
             = (close_fault e = None,
                merge_into sf (db_now e) uid mid (JStr (encrypt f 0 t)) (py_now e + n * 1000000)
                  (if l = [] then JNull else JList q) tbl,
                case close_fault e of None \<Rightarrow> []
                | Some y \<Rightarrow> [''Error storing token: '' @ py_str y])
           \<and> length q = length l
           \<and> (\<forall>i<length l. \<forall>m. l ! i = JObj m \<longrightarrow>
               (map_of m ''access_token'' = None \<longrightarrow> q ! i = JObj m)
             \<and> (\<forall>t. map_of m ''access_token'' = Some (JStr t) \<longrightarrow>
                   q ! i = JObj (map (\<lambda>kv. if fst kv = ''access_token''
                      then (''access_token'',
                            JStr (encrypt f (1 + length (filter (\<lambda>page. case page of
                                JObj m' \<Rightarrow> map_of m' ''access_token'' \<noteq> None | _ \<Rightarrow> False)
                                (take i l))) t))
                      else kv) m)))"
      by (intro store_succeeds) simp_all
    then show "\<exists>q. store_user_token f sf e uid mid (JStr t) (JInt n) (JList l) tbl
             = (close_fault e = None,
                merge_into sf (db_now e) uid mid (JStr (encrypt f 0 t)) (py_now e + n * 1000000)
                  (if l = [] then JNull else JList q) tbl,
                case close_fault e of None \<Rightarrow> []
                | Some y \<Rightarrow> [''Error storing token: '' @ py_str y])
           \<and> length q = length l
           \<and> (\<forall>i<length l. \<forall>m. l ! i = JObj m \<longrightarrow>
               (map_of m ''access_token'' = None \<longrightarrow> q ! i = JObj m)
             \<and> (\<forall>t. map_of m ''access_token'' = Some (JStr t) \<longrightarrow>
                   q ! i = JObj (map (\<lambda>kv. if fst kv = ''access_token''
                      then (''access_token'',
                            JStr (encrypt f (1 + length (filter (\<lambda>page. case page of
                                JObj m' \<Rightarrow> map_of m' ''access_token'' \<noteq> None | _ \<Rightarrow> False)
                                (take i l))) t))
                      else kv) m)))
           \<and> select_where uid (merge_into sf (db_now e) uid mid (JStr (encrypt f 0 t))
                  (py_now e + n * 1000000) (if l = [] then JNull else JList q) tbl) \<noteq> []"
      using merge_written by blast
  qed
  have h: "(case store_user_token f sf e uid mid tok ex pgs tbl of
      (success, tbl', shown) \<Rightarrow>
        (success \<longrightarrow>
           connect_fault e = None \<and> execute_fault e = None \<and> close_fault e = None
         \<and> shown = []
         \<and> (\<exists>t. tok = JStr t \<and> select_where uid tbl' \<noteq> []
              \<and> (\<forall>r\<in>set (select_where uid tbl').
                    META_USER_ID r = mid \<and> ACCESS_TOKEN r = JStr (encrypt f 0 t)
                  \<and> (\<forall>n. ex = JInt n \<longrightarrow> TOKEN_EXPIRY r = Some (py_now e + n * 1000000)))))
      \<and> (\<not> success \<longrightarrow> length shown = 1))"
  proof -
    obtain success tbl' shown where
      res: "store_user_token f sf e uid mid tok ex pgs tbl = (success, tbl', shown)"
      by (cases "store_user_token f sf e uid mid tok ex pgs tbl") auto
    have yes: "success \<longrightarrow>
           connect_fault e = None \<and> execute_fault e = None \<and> close_fault e = None
         \<and> shown = []
         \<and> (\<exists>t. tok = JStr t \<and> select_where uid tbl' \<noteq> []
              \<and> (\<forall>r\<in>set (select_where uid tbl').
                    META_USER_ID r = mid \<and> ACCESS_TOKEN r = JStr (encrypt f 0 t)
                  \<and> (\<forall>n. ex = JInt n \<longrightarrow> TOKEN_EXPIRY r = Some (py_now e + n * 1000000))))"
    proof
      assume success
      with res obtain c x p where
        prep: "store_prepare f e tok ex pgs = Inr (c, x, p)" and
        faults: "execute_fault e = None" "close_fault e = None" "shown = []" and
        t: "tbl' = merge_into sf (db_now e) uid mid (JStr c) x p tbl"
        by (auto simp: store_True_iff)
      from store_prepare_Inr [OF prep] have conn: "connect_fault e = None"
        and enc: "encrypt_token f 0 tok = Inr c" by simp_all
      from enc obtain t' where tok: "tok = JStr t'" and c: "c = encrypt f 0 t'"
        by (cases tok) auto
      have exp: "\<forall>n. ex = JInt n \<longrightarrow> x = py_now e + n * 1000000"
        using store_prepare_expiry prep by blast
      from merge_written [of uid sf "db_now e" mid "JStr c" x p tbl] conn faults tok c exp
      show "connect_fault e = None \<and> execute_fault e = None \<and> close_fault e = None
         \<and> shown = []
         \<and> (\<exists>t. tok = JStr t \<and> select_where uid tbl' \<noteq> []
              \<and> (\<forall>r\<in>set (select_where uid tbl').
                    META_USER_ID r = mid \<and> ACCESS_TOKEN r = JStr (encrypt f 0 t)
                  \<and> (\<forall>n. ex = JInt n \<longrightarrow> TOKEN_EXPIRY r = Some (py_now e + n * 1000000))))"
        unfolding t by auto
    qed
    have no: "\<not> success \<longrightarrow> length shown = 1"
      using res by (auto simp: store_user_token_def split: sum.splits prod.splits)
    from yes no show ?thesis by (simp add: res)
  qed
  from a b c d e g h show ?thesis by (intro conjI)
qed

theorem store_user_token_reports_failure_witness:
  "store_user_token toy_fernet plain_table offline ''u1'' (JStr ''fb123'') (JStr ''tok-abc'')
       (JInt 3600) JNull [] = (False, [], [''Error storing token: 250001: could not connect''])
   \<and> store_user_token toy_fernet plain_table (session_at 1000) ''u1'' (JStr ''fb123'') JNull
       (JInt 3600) JNull []
     = (False, [], [''Error storing token: '' @ py_str (no_attribute JNull ''encode'')])
   \<and> store_user_token toy_fernet plain_table (session_at 1000) ''u1'' (JStr ''fb123'')
       (JStr ''tok-abc'') (JInt 3600) (JList [page_two, page_with_number]) []
     = (False, [], [''Error storing token: '' @ py_str (no_attribute (JInt 42) ''encode'')])
   \<and> store_user_token toy_fernet plain_table (session_at 1000) ''u1'' (JStr ''fb123'')
       (JStr ''tok-abc'') (JInt 3600) (JList [page_one, page_two, page_three]) []
     = (True,
        [\<lparr>USER_ID = ''u1'', META_USER_ID = JStr ''fb123'', ACCESS_TOKEN = JStr ''gAAAAA|tok-abc'',
          TOKEN_EXPIRY = Some 3600001000,
          PAGES = JList [JObj [(''id'', JStr ''p1''), (''name'', JStr ''Page One''),
                               (''access_token'', JStr ''gAAAAA=|page-tok'')],
                         JObj [(''id'', JStr ''p2''), (''name'', JStr ''Page Two'')],
                         JObj [(''access_token'', JStr ''gAAAAA==|third-tok''),
                               (''id'', JStr ''p3'')]],
          LAST_REFRESHED = None, NEEDS_REAUTH = None\<rparr>],
        [])
   \<and> store_user_token toy_fernet plain_table drops_on_close ''u1'' (JStr ''fb123'')
       (JStr ''tok-abc'') (JInt 3600) (JList []) []
     = (False,
        [\<lparr>USER_ID = ''u1'', META_USER_ID = JStr ''fb123'', ACCESS_TOKEN = JStr ''gAAAAA|tok-abc'',
          TOKEN_EXPIRY = Some 3600001000, PAGES = JNull, LAST_REFRESHED = None,
          NEEDS_REAUTH = None\<rparr>],
        [''Error storing token: connection reset''])"
proof -
  note inst = store_user_token_reports_failure [where f = toy_fernet and sf = plain_table
      and uid = "''u1''" and mid = "JStr ''fb123''" and tbl = "[]" and n = 3600 and t = "''tok-abc''"]
  have w1: "store_user_token toy_fernet plain_table offline ''u1'' (JStr ''fb123'') (JStr ''tok-abc'')
       (JInt 3600) JNull [] = (False, [], [''Error storing token: 250001: could not connect''])"
    using inst [where e = offline and x = "DatabaseError ''250001: could not connect''"
        and tok = "JStr ''tok-abc''" and ex = "JInt 3600" and pgs = JNull]
    by (simp add: offline_def)
  have w2: "store_user_token toy_fernet plain_table (session_at 1000) ''u1'' (JStr ''fb123'') JNull
       (JInt 3600) JNull []
     = (False, [], [''Error storing token: '' @ py_str (no_attribute JNull ''encode'')])"
    using inst [where e = "session_at 1000" and tok = JNull and ex = "JInt 3600" and pgs = JNull]
    by (simp add: session_at_def)
  have w3: "store_user_token toy_fernet plain_table (session_at 1000) ''u1'' (JStr ''fb123'')
       (JStr ''tok-abc'') (JInt 3600) (JList [page_two, page_with_number]) []
     = (False, [], [''Error storing token: '' @ py_str (no_attribute (JInt 42) ''encode'')])"
    using inst [where e = "session_at 1000" and tok = "JStr ''tok-abc''" and ex = "JInt 3600"
        and pgs = "JList [page_two, page_with_number]" and l = "[page_two, page_with_number]"
        and m = "[(''id'', JStr ''p4''), (''access_token'', JInt 42)]" and v = "JInt 42"]
    by (simp add: run_store run_more)
  have w4: "store_user_token toy_fernet plain_table (session_at 1000) ''u1'' (JStr ''fb123'')
       (JStr ''tok-abc'') (JInt 3600) (JList [page_one, page_two, page_three]) []
     = (True,
        [\<lparr>USER_ID = ''u1'', META_USER_ID = JStr ''fb123'', ACCESS_TOKEN = JStr ''gAAAAA|tok-abc'',
          TOKEN_EXPIRY = Some 3600001000,
          PAGES = JList [JObj [(''id'', JStr ''p1''), (''name'', JStr ''Page One''),
                               (''access_token'', JStr ''gAAAAA=|page-tok'')],
                         JObj [(''id'', JStr ''p2''), (''name'', JStr ''Page Two'')],
                         JObj [(''access_token'', JStr ''gAAAAA==|third-tok''),
                               (''id'', JStr ''p3'')]],
          LAST_REFRESHED = None, NEEDS_REAUTH = None\<rparr>],
        [])"
    by (simp add: run_store run_more)
  have w5: "store_user_token toy_fernet plain_table drops_on_close ''u1'' (JStr ''fb123'')
       (JStr ''tok-abc'') (JInt 3600) (JList []) []
     = (False,
        [\<lparr>USER_ID = ''u1'', META_USER_ID = JStr ''fb123'', ACCESS_TOKEN = JStr ''gAAAAA|tok-abc'',
          TOKEN_EXPIRY = Some 3600001000, PAGES = JNull, LAST_REFRESHED = None,
          NEEDS_REAUTH = None\<rparr>],
        [''Error storing token: connection reset''])"
    using inst [where e = drops_on_close and l = "[]" and tok = "JStr ''tok-abc''"
        and ex = "JInt 3600" and pgs = "JList []"]
    by (simp add: run_store run_more)
  from w1 w2 w3 w4 w5 show ?thesis by (intro conjI)
qed

text \<open>
  Claim C3. With a working session, a valid clock and an expiry within the range of
  \<open>datetime\<close>, \<open>store_user_token\<close> with a string token, a lifetime of \<open>n\<close>
  seconds and pages that are dicts with string tokens returns \<open>True\<close> and leaves a
  row of the user; every row of the user has as expiry the clock of the Python process at
  the write plus \<open>n\<close> seconds. When \<open>n\<close> is zero or negative, \<open>get_user_token\<close>
  run on that table at any strictly later time never returns a token record, and returns
  the reauthorization marker whenever its own session works (also when the session that
  would set the flag fails).
\<close>

theorem zero_lifetime_needs_reauth:
  assumes "connect_fault e = None \<and> execute_fault e = None \<and> close_fault e = None"
    and "0 \<le> py_now e \<and> py_now e \<le> datetime_max"
    and "0 \<le> py_now e + n * 1000000 \<and> py_now e + n * 1000000 \<le> datetime_max"
    and "\<forall>page\<in>set l. \<exists>m. page = JObj m
              \<and> (\<forall>v. map_of m ''access_token'' = Some v \<longrightarrow> (\<exists>t. v = JStr t))"
  shows "\<exists>tbl'. store_user_token f sf e uid mid (JStr t) (JInt n) (JList l) tbl = (True, tbl', [])
       \<and> select_where uid tbl' \<noteq> []
       \<and> (\<forall>r\<in>set (select_where uid tbl'). TOKEN_EXPIRY r = Some (py_now e + n * 1000000))
       \<and> (n \<le> 0 \<and> py_now e < py_now e2 \<longrightarrow>
            (\<forall>rec. fst (get_user_token f sf e2 em uid tbl') \<noteq> TokenRecord rec)
          \<and> (connect_fault e2 = None \<and> execute_fault e2 = None \<and> close_fault e2 = None \<longrightarrow>
               fst (get_user_token f sf e2 em uid tbl') = NeedsReauthMarker))"
proof -
  from assms(1) have conn: "connect_fault e = None" and exe: "execute_fault e = None"
    and clo: "close_fault e = None" by simp_all
  from store_succeeds [OF conn exe assms(2,3,4), of f sf uid mid t tbl] clo
  obtain q where
    st: "store_user_token f sf e uid mid (JStr t) (JInt n) (JList l) tbl
           = (True, merge_into sf (db_now e) uid mid (JStr (encrypt f 0 t))
                (py_now e + n * 1000000) (if l = [] then JNull else JList q) tbl, [])"
    by auto
  define tbl' where "tbl' = merge_into sf (db_now e) uid mid (JStr (encrypt f 0 t))
                (py_now e + n * 1000000) (if l = [] then JNull else JList q) tbl"
  have nonempty: "select_where uid tbl' \<noteq> []"
    and rows: "\<forall>r\<in>set (select_where uid tbl'). TOKEN_EXPIRY r = Some (py_now e + n * 1000000)"
    using merge_written [of uid sf "db_now e" mid "JStr (encrypt f 0 t)" "py_now e + n * 1000000"
        "if l = [] then JNull else JList q" tbl]
    by (simp_all add: tbl'_def)
  from nonempty obtain r rest where sel: "select_where uid tbl' = r # rest"
    by (cases "select_where uid tbl'") auto
  then have first: "fetchone (select_where uid tbl') = Some r" by simp
  from rows sel have expiry: "TOKEN_EXPIRY r = Some (py_now e + n * 1000000)" by simp
  have late: "n \<le> 0 \<and> py_now e < py_now e2 \<longrightarrow>
            (\<forall>rec. fst (get_user_token f sf e2 em uid tbl') \<noteq> TokenRecord rec)
          \<and> (connect_fault e2 = None \<and> execute_fault e2 = None \<and> close_fault e2 = None \<longrightarrow>
               fst (get_user_token f sf e2 em uid tbl') = NeedsReauthMarker)"
  proof
    assume a: "n \<le> 0 \<and> py_now e < py_now e2"
    then have "n * 1000000 \<le> 0" by (simp add: mult_le_0_iff)
    with a have "expired (TOKEN_EXPIRY r) (py_now e2)" by (simp add: expired_def expiry)
    then have stale: "NEEDS_REAUTH r = Some True \<or> expired (TOKEN_EXPIRY r) (py_now e2)" ..
    show "(\<forall>rec. fst (get_user_token f sf e2 em uid tbl') \<noteq> TokenRecord rec)
          \<and> (connect_fault e2 = None \<and> execute_fault e2 = None \<and> close_fault e2 = None \<longrightarrow>
               fst (get_user_token f sf e2 em uid tbl') = NeedsReauthMarker)"
      using get_never_record_if_stale [OF first stale] get_stale_marker [OF first stale]
      by blast
  qed
  from st nonempty rows late show ?thesis unfolding tbl'_def by blast
qed

theorem zero_lifetime_needs_reauth_witness:
  "store_user_token toy_fernet plain_table (session_at 1000) ''u1'' (JStr ''fb123'')
       (JStr ''tok-abc'') (JInt 0) (JList []) []
     = (True,
        [\<lparr>USER_ID = ''u1'', META_USER_ID = JStr ''fb123'', ACCESS_TOKEN = JStr ''gAAAAA|tok-abc'',
          TOKEN_EXPIRY = Some 1000, PAGES = JNull, LAST_REFRESHED = None,
          NEEDS_REAUTH = None\<rparr>], [])
   \<and> py_now (session_at 1000) < py_now (session_at 1001)
   \<and> get_user_token toy_fernet plain_table (session_at 1001) offline ''u1''
       [\<lparr>USER_ID = ''u1'', META_USER_ID = JStr ''fb123'', ACCESS_TOKEN = JStr ''gAAAAA|tok-abc'',
         TOKEN_EXPIRY = Some 1000, PAGES = JNull, LAST_REFRESHED = None,
         NEEDS_REAUTH = None\<rparr>]
     = (NeedsReauthMarker,
        [\<lparr>USER_ID = ''u1'', META_USER_ID = JStr ''fb123'', ACCESS_TOKEN = JStr ''gAAAAA|tok-abc'',
          TOKEN_EXPIRY = Some 1000, PAGES = JNull, LAST_REFRESHED = None,
          NEEDS_REAUTH = None\<rparr>],
        [''Error marking token for reauth: 250001: could not connect''])
   \<and> store_user_token toy_fernet plain_table (session_at 20000000) ''u1'' (JStr ''fb123'')
       (JStr ''tok-abc'') (JInt (- 10)) (JList [page_one]) []
     = (True,
        [\<lparr>USER_ID = ''u1'', META_USER_ID = JStr ''fb123'', ACCESS_TOKEN = JStr ''gAAAAA|tok-abc'',
          TOKEN_EXPIRY = Some 10000000,
          PAGES = JList [JObj [(''id'', JStr ''p1''), (''name'', JStr ''Page One''),
                               (''access_token'', JStr ''gAAAAA=|page-tok'')]],
          LAST_REFRESHED = None, NEEDS_REAUTH = None\<rparr>], [])
   \<and> fst (get_user_token toy_fernet plain_table (session_at 20000001) (session_at 20000001) ''u1''
       [\<lparr>USER_ID = ''u1'', META_USER_ID = JStr ''fb123'', ACCESS_TOKEN = JStr ''gAAAAA|tok-abc'',
          TOKEN_EXPIRY = Some 10000000,
          PAGES = JList [JObj [(''id'', JStr ''p1''), (''name'', JStr ''Page One''),
                               (''access_token'', JStr ''gAAAAA=|page-tok'')]],
          LAST_REFRESHED = None, NEEDS_REAUTH = None\<rparr>])
     = NeedsReauthMarker"
  using zero_lifetime_needs_reauth [where e = "session_at 1000" and n = 0 and l = "[]"
          and f = toy_fernet and sf = plain_table and uid = "''u1''" and mid = "JStr ''fb123''"
          and t = "''tok-abc''" and tbl = "[]" and ?e2.0 = "session_at 1001" and em = offline]
        zero_lifetime_needs_reauth [where e = "session_at 20000000" and n = "- 10"
          and l = "[page_one]"
          and f = toy_fernet and sf = plain_table and uid = "''u1''" and mid = "JStr ''fb123''"
          and t = "''tok-abc''" and tbl = "[]" and ?e2.0 = "session_at 20000001"
          and em = "session_at 20000001"]
  by (simp add: run_store run_more run_fetch)

text \<open>
  Claim C5 as stated fails in one part: the refresh timestamp is not set by every upsert.
  The \<open>INSERT\<close> branch of the \<open>MERGE\<close> names neither \<open>LAST_REFRESHED\<close> nor
  \<open>NEEDS_REAUTH\<close>; on a table declared without defaults the first upsert of a user
  leaves both \<open>NULL\<close>, although the server's clock shows a time.
\<close>

theorem first_upsert_leaves_defaults:
  "db_now (session_at 1000) = 1000
   \<and> store_user_token toy_fernet plain_table (session_at 1000) ''u1'' (JStr ''fb123'')
       (JStr ''tok-abc'') (JInt 3600) (JList [page_two]) []
     = (True,
        [\<lparr>USER_ID = ''u1'', META_USER_ID = JStr ''fb123'', ACCESS_TOKEN = JStr ''gAAAAA|tok-abc'',
          TOKEN_EXPIRY = Some 3600001000,
          PAGES = JList [JObj [(''id'', JStr ''p2''), (''name'', JStr ''Page Two'')]],
          LAST_REFRESHED = None, NEEDS_REAUTH = None\<rparr>],
        [])"
  by (simp add: run_store run_more)

text \<open>
  Claim C5, amended. The upsert is keyed on the user id. On a table that holds at most one
  row of the user, two calls of \<open>store_user_token\<close> for that user with working
  sessions, valid clocks and expiries, string tokens and pages that are dicts with string
  tokens both return \<open>True\<close>, and the table then holds exactly one row of the user.
  That row is made of the second call alone: its Meta user id, its token encrypted, its
  clock plus its lifetime, and its pages with every page token encrypted by its own call
  of the vault and everything else as given; \<open>LAST_REFRESHED\<close> is the server's time of
  the second call and \<open>NEEDS_REAUTH\<close> is false. The rows of every other user are as
  they were. After the first call the user has one row: when the call found a row, its
  \<open>LAST_REFRESHED\<close> is the server's time of that call and \<open>NEEDS_REAUTH\<close> is
  false; when it inserted the row, both columns hold the defaults of the table.
\<close>

theorem second_upsert_wins:
  assumes one: "length (select_where uid tbl) \<le> 1"
    and s1: "connect_fault e1 = None \<and> execute_fault e1 = None \<and> close_fault e1 = None"
    and c1: "0 \<le> py_now e1 \<and> py_now e1 \<le> datetime_max"
    and x1: "0 \<le> py_now e1 + n1 * 1000000 \<and> py_now e1 + n1 * 1000000 \<le> datetime_max"
    and p1: "\<forall>page\<in>set l1. \<exists>m. page = JObj m
              \<and> (\<forall>v. map_of m ''access_token'' = Some v \<longrightarrow> (\<exists>t. v = JStr t))"
    and s2: "connect_fault e2 = None \<and> execute_fault e2 = None \<and> close_fault e2 = None"
    and c2: "0 \<le> py_now e2 \<and> py_now e2 \<le> datetime_max"
    and x2: "0 \<le> py_now e2 + n2 * 1000000 \<and> py_now e2 + n2 * 1000000 \<le> datetime_max"
    and p2: "\<forall>page\<in>set l2. \<exists>m. page = JObj m
              \<and> (\<forall>v. map_of m ''access_token'' = Some v \<longrightarrow> (\<exists>t. v = JStr t))"
  shows "\<exists>tbl1 tbl2 q.
           store_user_token f sf e1 uid mid1 (JStr t1) (JInt n1) (JList l1) tbl = (True, tbl1, [])
         \<and> store_user_token f sf e2 uid mid2 (JStr t2) (JInt n2) (JList l2) tbl1 = (True, tbl2, [])
         \<and> select_where uid tbl2 =
               [\<lparr>USER_ID = uid, META_USER_ID = mid2, ACCESS_TOKEN = JStr (encrypt f 0 t2),
                 TOKEN_EXPIRY = Some (py_now e2 + n2 * 1000000),
                 PAGES = (if l2 = [] then JNull else JList q),
                 LAST_REFRESHED = Some (db_now e2), NEEDS_REAUTH = Some False\<rparr>]
         \<and> length q = length l2
         \<and> (\<forall>i<length l2. \<forall>m. l2 ! i = JObj m \<longrightarrow>
               (map_of m ''access_token'' = None \<longrightarrow> q ! i = JObj m)
             \<and> (\<forall>t. map_of m ''access_token'' = Some (JStr t) \<longrightarrow>
                   q ! i = JObj (map (\<lambda>kv. if fst kv = ''access_token''
                      then (''access_token'',
                            JStr (encrypt f (1 + length (filter (\<lambda>page. case page of
                                JObj m' \<Rightarrow> map_of m' ''access_token'' \<noteq> None | _ \<Rightarrow> False)
                                (take i l2))) t))
                      else kv) m)))
         \<and> (\<forall>u. u \<noteq> uid \<longrightarrow> select_where u tbl2 = select_where u tbl)
         \<and> (select_where uid tbl = [] \<longrightarrow>
               (\<exists>r. select_where uid tbl1 = [r]
                  \<and> LAST_REFRESHED r = default_LAST_REFRESHED sf (db_now e1)
                  \<and> NEEDS_REAUTH r = default_NEEDS_REAUTH sf))
         \<and> (select_where uid tbl \<noteq> [] \<longrightarrow>
               (\<exists>r. select_where uid tbl1 = [r]
                  \<and> LAST_REFRESHED r = Some (db_now e1) \<and> NEEDS_REAUTH r = Some False))"
proof -
  from s1 have conn1: "connect_fault e1 = None" and exe1: "execute_fault e1 = None"
    and clo1: "close_fault e1 = None" by simp_all
  from s2 have conn2: "connect_fault e2 = None" and exe2: "execute_fault e2 = None"
    and clo2: "close_fault e2 = None" by simp_all
  from store_succeeds [OF conn1 exe1 c1 x1 p1, of f sf uid mid1 t1 tbl] clo1
  obtain q1 where
    st1: "store_user_token f sf e1 uid mid1 (JStr t1) (JInt n1) (JList l1) tbl
           = (True, merge_into sf (db_now e1) uid mid1 (JStr (encrypt f 0 t1))
                (py_now e1 + n1 * 1000000) (if l1 = [] then JNull else JList q1) tbl, [])"
    by auto
  define tbl1 where "tbl1 = merge_into sf (db_now e1) uid mid1 (JStr (encrypt f 0 t1))
                (py_now e1 + n1 * 1000000) (if l1 = [] then JNull else JList q1) tbl"
  from store_succeeds [OF conn2 exe2 c2 x2 p2, of f sf uid mid2 t2 tbl1] clo2
  obtain q where
    st2: "store_user_token f sf e2 uid mid2 (JStr t2) (JInt n2) (JList l2) tbl1
           = (True, merge_into sf (db_now e2) uid mid2 (JStr (encrypt f 0 t2))
                (py_now e2 + n2 * 1000000) (if l2 = [] then JNull else JList q) tbl1, [])"
    and len: "length q = length l2"
    and pt: "(\<forall>i<length l2. \<forall>m. l2 ! i = JObj m \<longrightarrow>
               (map_of m ''access_token'' = None \<longrightarrow> q ! i = JObj m)
             \<and> (\<forall>t. map_of m ''access_token'' = Some (JStr t) \<longrightarrow>
                   q ! i = JObj (map (\<lambda>kv. if fst kv = ''access_token''
                      then (''access_token'',
                            JStr (encrypt f (1 + length (filter (\<lambda>page. case page of
                                JObj m' \<Rightarrow> map_of m' ''access_token'' \<noteq> None | _ \<Rightarrow> False)
                                (take i l2))) t))
                      else kv) m)))"
    by auto
  define tbl2 where "tbl2 = merge_into sf (db_now e2) uid mid2 (JStr (encrypt f 0 t2))
                (py_now e2 + n2 * 1000000) (if l2 = [] then JNull else JList q) tbl1"
  have ins: "select_where uid tbl = [] \<longrightarrow>
               (\<exists>r. select_where uid tbl1 = [r]
                  \<and> LAST_REFRESHED r = default_LAST_REFRESHED sf (db_now e1)
                  \<and> NEEDS_REAUTH r = default_NEEDS_REAUTH sf)"
    unfolding tbl1_def by (simp add: select_merge_absent)
  have upd: "select_where uid tbl \<noteq> [] \<longrightarrow>
               (\<exists>r. select_where uid tbl1 = [r]
                  \<and> LAST_REFRESHED r = Some (db_now e1) \<and> NEEDS_REAUTH r = Some False)"
  proof
    assume present: "select_where uid tbl \<noteq> []"
    with one obtain r0 where "select_where uid tbl = [r0]"
      by (cases "select_where uid tbl") auto
    with present show "\<exists>r. select_where uid tbl1 = [r]
                  \<and> LAST_REFRESHED r = Some (db_now e1) \<and> NEEDS_REAUTH r = Some False"
      unfolding tbl1_def by (simp add: select_merge_present)
  qed
  from ins upd obtain r where r: "select_where uid tbl1 = [r]"
    by (cases "select_where uid tbl = []") auto
  then have "select_where uid tbl1 \<noteq> []" by simp
  from select_merge_present [OF this] r
  have row: "select_where uid tbl2 =
               [\<lparr>USER_ID = uid, META_USER_ID = mid2, ACCESS_TOKEN = JStr (encrypt f 0 t2),
                 TOKEN_EXPIRY = Some (py_now e2 + n2 * 1000000),
                 PAGES = (if l2 = [] then JNull else JList q),
                 LAST_REFRESHED = Some (db_now e2), NEEDS_REAUTH = Some False\<rparr>]"
    unfolding tbl2_def by simp
  have others: "\<forall>u. u \<noteq> uid \<longrightarrow> select_where u tbl2 = select_where u tbl"
    unfolding tbl2_def tbl1_def by (simp add: select_merge_other)
  from st1 st2 row len pt others ins upd show ?thesis
    unfolding tbl1_def [symmetric] tbl2_def [symmetric]
    by (intro exI [of _ tbl1] exI [of _ tbl2] exI [of _ q] conjI)
qed

theorem second_upsert_wins_witness:
  "length (select_where ''u1'' []) \<le> 1
   \<and> store_user_token toy_fernet plain_table (session_at 1000) ''u1'' (JStr ''fb123'')
       (JStr ''tok-abc'') (JInt 3600) (JList [page_one]) []
     = (True,
        [\<lparr>USER_ID = ''u1'', META_USER_ID = JStr ''fb123'', ACCESS_TOKEN = JStr ''gAAAAA|tok-abc'',
          TOKEN_EXPIRY = Some 3600001000,
          PAGES = JList [JObj [(''id'', JStr ''p1''), (''name'', JStr ''Page One''),
                               (''access_token'', JStr ''gAAAAA=|page-tok'')]],
          LAST_REFRESHED = None, NEEDS_REAUTH = None\<rparr>],
        [])
   \<and> store_user_token toy_fernet plain_table (session_at 2000) ''u1'' (JStr ''fb456'')
       (JStr ''tok-new'') (JInt 60) (JList [page_two, page_three])
       [\<lparr>USER_ID = ''u1'', META_USER_ID = JStr ''fb123'', ACCESS_TOKEN = JStr ''gAAAAA|tok-abc'',
          TOKEN_EXPIRY = Some 3600001000,
          PAGES = JList [JObj [(''id'', JStr ''p1''), (''name'', JStr ''Page One''),
                               (''access_token'', JStr ''gAAAAA=|page-tok'')]],
          LAST_REFRESHED = None, NEEDS_REAUTH = None\<rparr>]
     = (True,
        [\<lparr>USER_ID = ''u1'', META_USER_ID = JStr ''fb456'', ACCESS_TOKEN = JStr ''gAAAAA|tok-new'',
          TOKEN_EXPIRY = Some 60002000,
          PAGES = JList [JObj [(''id'', JStr ''p2''), (''name'', JStr ''Page Two'')],
                         JObj [(''access_token'', JStr ''gAAAAA=|third-tok''),
                               (''id'', JStr ''p3'')]],
          LAST_REFRESHED = Some 2000, NEEDS_REAUTH = Some False\<rparr>],
        [])
   \<and> select_where ''u1''
        [\<lparr>USER_ID = ''u1'', META_USER_ID = JStr ''fb456'', ACCESS_TOKEN = JStr ''gAAAAA|tok-new'',
          TOKEN_EXPIRY = Some 60002000,
          PAGES = JList [JObj [(''id'', JStr ''p2''), (''name'', JStr ''Page Two'')],
                         JObj [(''access_token'', JStr ''gAAAAA=|third-tok''),
                               (''id'', JStr ''p3'')]],
          LAST_REFRESHED = Some 2000, NEEDS_REAUTH = Some False\<rparr>]
     = [\<lparr>USER_ID = ''u1'', META_USER_ID = JStr ''fb456'',
         ACCESS_TOKEN = JStr (encrypt toy_fernet 0 ''tok-new''),
         TOKEN_EXPIRY = Some (py_now (session_at 2000) + 60 * 1000000),
         PAGES = JList [page_two,
                        JObj [(''access_token'', JStr (encrypt toy_fernet 1 ''third-tok'')),
                              (''id'', JStr ''p3'')]],
         LAST_REFRESHED = Some (db_now (session_at 2000)), NEEDS_REAUTH = Some False\<rparr>]"
  using second_upsert_wins [where uid = "''u1''" and tbl = "[]" and f = toy_fernet
      and sf = plain_table and ?e1.0 = "session_at 1000" and ?e2.0 = "session_at 2000"
      and ?mid1.0 = "JStr ''fb123''" and ?mid2.0 = "JStr ''fb456''"
      and ?t1.0 = "''tok-abc''" and ?t2.0 = "''tok-new''" and ?n1.0 = 3600 and ?n2.0 = 60
      and ?l1.0 = "[page_one]" and ?l2.0 = "[page_two, page_three]"]
  by (simp add: run_store run_more select_where_def)

section \<open>Pages of a fetched record\<close>

lemma decrypt_page_dict:
  "decrypt_page f (JObj m) =
     (case map_of m ''access_token'' of
        None \<Rightarrow> Inr (JObj m)
      | Some v \<Rightarrow>
          (case decrypt_token f v of
             Inl x \<Rightarrow> Inl x
           | Inr t \<Rightarrow> Inr (JObj (map (\<lambda>kv. if fst kv = ''access_token''
                                            then (''access_token'', JStr t) else kv) m))))"
proof (cases "map_of m ''access_token''")
  case None
  then have "''access_token'' \<notin> set (map fst m)" by (simp add: map_of_eq_None_iff)
  then show ?thesis by (simp add: decrypt_page_def None)
next
  case (Some v)
  then have "''access_token'' \<in> set (map fst m)"
    by (metis map_of_eq_None_iff option.distinct(1) set_map)
  with Some show ?thesis
    by (cases "decrypt_token f v") (simp_all add: decrypt_page_def dict_set_present)
qed

lemma decrypt_token_fails:
  "(\<forall>c. v = JStr c \<longrightarrow> decrypt f c = None) \<Longrightarrow> \<exists>x. decrypt_token f v = Inl x"
  by (cases v) simp_all

lemma decrypt_pages_fail:
  assumes "JObj m \<in> set l" and "map_of m ''access_token'' = Some v"
    and "\<forall>c. v = JStr c \<longrightarrow> decrypt f c = None"
  shows "\<exists>x. decrypt_pages f l = Inl x"
  using assms(1)
proof (induction l)
  case Nil
  then show ?case by simp
next
  case (Cons page rest)
  from decrypt_token_fails [OF assms(3)] obtain y where y: "decrypt_token f v = Inl y" ..
  show ?case
  proof (cases "decrypt_page f page")
    case (Inl x)
    then show ?thesis by simp
  next
    case (Inr p)
    with assms(2) y have "page \<noteq> JObj m" by (auto simp: decrypt_page_dict)
    with Cons.prems have "JObj m \<in> set rest" by simp
    from Cons.IH [OF this] obtain x where "decrypt_pages f rest = Inl x" ..
    with Inr show ?thesis by simp
  qed
qed

lemma decrypt_pages_dicts:
  assumes "\<forall>page\<in>set l. \<exists>m. page = JObj m
              \<and> (\<forall>v. map_of m ''access_token'' = Some v \<longrightarrow>
                    (\<exists>c t. v = JStr c \<and> decrypt f c = Some t))"
  shows "\<exists>q. decrypt_pages f l = Inr q \<and> length q = length l
           \<and> (\<forall>i<length l. \<forall>m. l ! i = JObj m \<longrightarrow>
               (map_of m ''access_token'' = None \<longrightarrow> q ! i = JObj m)
             \<and> (\<forall>c t. map_of m ''access_token'' = Some (JStr c) \<and> decrypt f c = Some t \<longrightarrow>
                   q ! i = JObj (map (\<lambda>kv. if fst kv = ''access_token''
                      then (''access_token'', JStr t) else kv) m)))"
  using assms
proof (induction l)
  case Nil
  then show ?case by simp
next
  case (Cons page rest)
  from Cons.prems obtain m0 where page: "page = JObj m0"
    and str: "\<forall>v. map_of m0 ''access_token'' = Some v \<longrightarrow>
                (\<exists>c t. v = JStr c \<and> decrypt f c = Some t)" by auto
  from Cons.prems have rest: "\<forall>page\<in>set rest. \<exists>m. page = JObj m
              \<and> (\<forall>v. map_of m ''access_token'' = Some v \<longrightarrow>
                    (\<exists>c t. v = JStr c \<and> decrypt f c = Some t))" by simp
  define p' where "p' = (case map_of m0 ''access_token'' of None \<Rightarrow> JObj m0
      | Some v \<Rightarrow> (case v of JStr c \<Rightarrow> JObj (map (\<lambda>kv. if fst kv = ''access_token''
                        then (''access_token'', JStr (the (decrypt f c))) else kv) m0)
                    | _ \<Rightarrow> JNull))"
  have first: "decrypt_page f page = Inr p'"
    using str by (auto simp: page decrypt_page_dict p'_def split: option.splits)
  from Cons.IH [OF rest] obtain q where
    q: "decrypt_pages f rest = Inr q" and len: "length q = length rest" and
    pt: "(\<forall>i<length rest. \<forall>m. rest ! i = JObj m \<longrightarrow>
               (map_of m ''access_token'' = None \<longrightarrow> q ! i = JObj m)
             \<and> (\<forall>c t. map_of m ''access_token'' = Some (JStr c) \<and> decrypt f c = Some t \<longrightarrow>
                   q ! i = JObj (map (\<lambda>kv. if fst kv = ''access_token''
                      then (''access_token'', JStr t) else kv) m)))"
    by blast
  have all: "decrypt_pages f (page # rest) = Inr (p' # q)" by (simp add: first q)
  have point: "(\<forall>i<length (page # rest). \<forall>m. (page # rest) ! i = JObj m \<longrightarrow>
               (map_of m ''access_token'' = None \<longrightarrow> (p' # q) ! i = JObj m)
             \<and> (\<forall>c t. map_of m ''access_token'' = Some (JStr c) \<and> decrypt f c = Some t \<longrightarrow>
                   (p' # q) ! i = JObj (map (\<lambda>kv. if fst kv = ''access_token''
                      then (''access_token'', JStr t) else kv) m)))"
  proof (intro allI impI)
    fix i m
    assume i: "i < length (page # rest)" and m: "(page # rest) ! i = JObj m"
    show "(map_of m ''access_token'' = None \<longrightarrow> (p' # q) ! i = JObj m)
           \<and> (\<forall>c t. map_of m ''access_token'' = Some (JStr c) \<and> decrypt f c = Some t \<longrightarrow>
                 (p' # q) ! i = JObj (map (\<lambda>kv. if fst kv = ''access_token''
                    then (''access_token'', JStr t) else kv) m))"
    proof (cases i)
      case 0
      with m page have "m = m0" by simp
      then show ?thesis using 0 by (auto simp: p'_def)
    next
      case (Suc j)
      with i m have j: "j < length rest" and mj: "rest ! j = JObj m" by simp_all
      from pt j mj show ?thesis by (simp add: Suc) blast
    qed
  qed
  show ?case
  proof (intro exI [of _ "p' # q"] conjI)
    show "decrypt_pages f (page # rest) = Inr (p' # q)" by (rule all)
    show "length (p' # q) = length (page # rest)" by (simp add: len)
    show "(\<forall>i<length (page # rest). \<forall>m. (page # rest) ! i = JObj m \<longrightarrow>
               (map_of m ''access_token'' = None \<longrightarrow> (p' # q) ! i = JObj m)
             \<and> (\<forall>c t. map_of m ''access_token'' = Some (JStr c) \<and> decrypt f c = Some t \<longrightarrow>
                   (p' # q) ! i = JObj (map (\<lambda>kv. if fst kv = ''access_token''
                      then (''access_token'', JStr t) else kv) m)))" by (rule point)
  qed
qed

lemma decrypt_column_list:
  "decrypt_column f (JList l) =
     (if l = [] then Inr JNull else then_do (decrypt_pages f l) (\<lambda>ps. Inr (JList ps)))"
  by (simp add: decrypt_column_def)

lemma decrypt_column_text:
  assumes "s \<noteq> []"
  shows "\<exists>x. decrypt_column f (JStr s) = Inl x"
proof -
  from assms obtain c rest where s: "s = c # rest" by (cases s) auto
  have "decrypt_page f (JStr [c]) = Inl (wrong_length 0 1)"
    by (simp add: decrypt_page_def)
  then show ?thesis by (simp add: decrypt_column_def s)
qed

lemma get_decrypt_fault:
  assumes "fetchone (select_where uid tbl) = Some r" and "NEEDS_REAUTH r \<noteq> Some True"
    and "\<not> expired (TOKEN_EXPIRY r) (py_now e)"
    and "\<exists>x. decrypt_record f sf r = Inl x"
  shows "fst (get_user_token f sf e em uid tbl) = NotFound"
    and "fst (snd (get_user_token f sf e em uid tbl)) = tbl"
    and "length (snd (snd (get_user_token f sf e em uid tbl))) = 1"
  using assms
  by (auto simp: get_user_token_def get_user_token_try_def split: option.splits)

lemma record_token_fault:
  assumes "\<forall>c. ACCESS_TOKEN r = JStr c \<longrightarrow> decrypt f c = None"
  shows "\<exists>x. decrypt_record f sf r = Inl x"
  using decrypt_token_fails [OF assms] by (auto simp: decrypt_record_def)

lemma record_page_fault:
  assumes "fetch_PAGES sf (PAGES r) = JList l" and "JObj m \<in> set l"
    and "map_of m ''access_token'' = Some v" and "\<forall>c. v = JStr c \<longrightarrow> decrypt f c = None"
  shows "\<exists>x. decrypt_record f sf r = Inl x"
proof -
  from decrypt_pages_fail [OF assms(2-4)] obtain x where "decrypt_pages f l = Inl x" ..
  moreover from assms(2) have "l \<noteq> []" by auto
  ultimately have "decrypt_column f (fetch_PAGES sf (PAGES r)) = Inl x"
    by (simp add: assms(1) decrypt_column_list)
  then show ?thesis
    by (cases "decrypt_token f (ACCESS_TOKEN r)") (simp_all add: decrypt_record_def)
qed

lemma record_text_fault:
  assumes "fetch_PAGES sf (PAGES r) = JStr s" and "s \<noteq> []"
  shows "\<exists>x. decrypt_record f sf r = Inl x"
proof -
  from decrypt_column_text [OF assms(2)] obtain x where "decrypt_column f (JStr s) = Inl x" ..
  then show ?thesis
    by (cases "decrypt_token f (ACCESS_TOKEN r)") (simp_all add: decrypt_record_def assms(1))
qed

section \<open>What the fetch returns\<close>

text \<open>
  Claim C8. \<open>get_user_token\<close> returns \<open>None\<close> for a user without a row. Whatever
  its \<open>try\<close> block raises becomes \<open>None\<close>: a failing connection, statement or
  \<open>close\<close> (the table is untouched and one message is shown), a token that is not
  a string or that the vault rejects, and a page of the fetched list whose token is not a
  string or is rejected by the vault; in the last two cases the table is unchanged and one
  message is shown. For an expired row the result is the reauthorization marker whatever
  happens to the session that sets the flag.
\<close>

theorem fetch_degrades_to_not_found:
  "(select_where uid tbl = [] \<longrightarrow> fst (get_user_token f sf e em uid tbl) = NotFound)
   \<and> (connect_fault e \<noteq> None \<or> execute_fault e \<noteq> None \<or> close_fault e \<noteq> None \<longrightarrow>
        (\<exists>x. get_user_token f sf e em uid tbl
                = (NotFound, tbl, [''Error retrieving token: '' @ py_str x])))
   \<and> (\<forall>x. fst (get_user_token_try f sf e em uid tbl) = Inl x \<longrightarrow>
        fst (get_user_token f sf e em uid tbl) = NotFound)
   \<and> (\<forall>r x. fetchone (select_where uid tbl) = Some r \<and> NEEDS_REAUTH r \<noteq> Some True
          \<and> \<not> expired (TOKEN_EXPIRY r) (py_now e) \<and> decrypt_record f sf r = Inl x \<longrightarrow>
        fst (get_user_token f sf e em uid tbl) = NotFound
        \<and> fst (snd (get_user_token f sf e em uid tbl)) = tbl)
   \<and> (\<forall>r c. ACCESS_TOKEN r = JStr c \<and> decrypt f c = None \<longrightarrow>
        decrypt_record f sf r = Inl InvalidToken)
   \<and> (\<forall>r. fetchone (select_where uid tbl) = Some r \<and> NEEDS_REAUTH r \<noteq> Some True
          \<and> expired (TOKEN_EXPIRY r) (py_now e)
          \<and> connect_fault e = None \<and> execute_fault e = None \<and> close_fault e = None \<longrightarrow>
        fst (get_user_token f sf e em uid tbl) = NeedsReauthMarker)
   \<and> (\<forall>r. fetchone (select_where uid tbl) = Some r \<and> NEEDS_REAUTH r \<noteq> Some True
          \<and> \<not> expired (TOKEN_EXPIRY r) (py_now e)
          \<and> (\<forall>c. ACCESS_TOKEN r = JStr c \<longrightarrow> decrypt f c = None) \<longrightarrow>
        fst (get_user_token f sf e em uid tbl) = NotFound
        \<and> fst (snd (get_user_token f sf e em uid tbl)) = tbl
        \<and> length (snd (snd (get_user_token f sf e em uid tbl))) = 1)
   \<and> (\<forall>r l m v. fetchone (select_where uid tbl) = Some r \<and> NEEDS_REAUTH r \<noteq> Some True
          \<and> \<not> expired (TOKEN_EXPIRY r) (py_now e)
          \<and> fetch_PAGES sf (PAGES r) = JList l \<and> JObj m \<in> set l
          \<and> map_of m ''access_token'' = Some v
          \<and> (\<forall>c. v = JStr c \<longrightarrow> decrypt f c = None) \<longrightarrow>
        fst (get_user_token f sf e em uid tbl) = NotFound
        \<and> fst (snd (get_user_token f sf e em uid tbl)) = tbl
        \<and> length (snd (snd (get_user_token f sf e em uid tbl))) = 1)
   \<and> (\<forall>r. fetchone (select_where uid tbl) = Some r \<and> NEEDS_REAUTH r \<noteq> Some True
          \<and> \<not> expired (TOKEN_EXPIRY r) (py_now e)
          \<and> connect_fault e = None \<and> execute_fault e = None \<and> close_fault e = None
          \<and> (\<forall>c. ACCESS_TOKEN r = JStr c \<longrightarrow> decrypt f c = None) \<longrightarrow>
        (\<exists>x. decrypt_token f (ACCESS_TOKEN r) = Inl x
           \<and> get_user_token f sf e em uid tbl
                = (NotFound, tbl, [''Error retrieving token: '' @ py_str x])))"
proof -
  have a: "(select_where uid tbl = [] \<longrightarrow> fst (get_user_token f sf e em uid tbl) = NotFound)"
    using get_absent(1) by blast
  have b: "(connect_fault e \<noteq> None \<or> execute_fault e \<noteq> None \<or> close_fault e \<noteq> None \<longrightarrow>
        (\<exists>x. get_user_token f sf e em uid tbl
                = (NotFound, tbl, [''Error retrieving token: '' @ py_str x])))"
    using get_session_fault by blast
  have c: "(\<forall>x. fst (get_user_token_try f sf e em uid tbl) = Inl x \<longrightarrow>
        fst (get_user_token f sf e em uid tbl) = NotFound)"
    using get_raised by blast
  have d: "(\<forall>r x. fetchone (select_where uid tbl) = Some r \<and> NEEDS_REAUTH r \<noteq> Some True
          \<and> \<not> expired (TOKEN_EXPIRY r) (py_now e) \<and> decrypt_record f sf r = Inl x \<longrightarrow>
        fst (get_user_token f sf e em uid tbl) = NotFound
        \<and> fst (snd (get_user_token f sf e em uid tbl)) = tbl)"
    by (auto simp: get_user_token_def get_user_token_try_def split: option.splits)
  have e: "(\<forall>r c. ACCESS_TOKEN r = JStr c \<and> decrypt f c = None \<longrightarrow>
        decrypt_record f sf r = Inl InvalidToken)"
    by (simp add: decrypt_record_def)
  have g: "(\<forall>r. fetchone (select_where uid tbl) = Some r \<and> NEEDS_REAUTH r \<noteq> Some True
          \<and> expired (TOKEN_EXPIRY r) (py_now e)
          \<and> connect_fault e = None \<and> execute_fault e = None \<and> close_fault e = None \<longrightarrow>
        fst (get_user_token f sf e em uid tbl) = NeedsReauthMarker)"
    using get_stale_marker by blast
  have h: "(\<forall>r. fetchone (select_where uid tbl) = Some r \<and> NEEDS_REAUTH r \<noteq> Some True
          \<and> \<not> expired (TOKEN_EXPIRY r) (py_now e)
          \<and> (\<forall>c. ACCESS_TOKEN r = JStr c \<longrightarrow> decrypt f c = None) \<longrightarrow>
        fst (get_user_token f sf e em uid tbl) = NotFound
        \<and> fst (snd (get_user_token f sf e em uid tbl)) = tbl
        \<and> length (snd (snd (get_user_token f sf e em uid tbl))) = 1)"
  proof (intro allI impI)
    fix r 
    assume asm: "fetchone (select_where uid tbl) = Some r \<and> NEEDS_REAUTH r \<noteq> Some True
          \<and> \<not> expired (TOKEN_EXPIRY r) (py_now e)
          \<and> (\<forall>c. ACCESS_TOKEN r = JStr c \<longrightarrow> decrypt f c = None)"
    then have f1: "fetchone (select_where uid tbl) = Some r"
      and f2: "NEEDS_REAUTH r \<noteq> Some True"
      and f3: "\<not> expired (TOKEN_EXPIRY r) (py_now e)" by simp_all
    from asm have bad: "\<exists>x. decrypt_record f sf r = Inl x"
      using record_token_fault [of r f sf] by blast
    from get_decrypt_fault [OF f1 f2 f3 bad, of em]
    show "fst (get_user_token f sf e em uid tbl) = NotFound
        \<and> fst (snd (get_user_token f sf e em uid tbl)) = tbl
        \<and> length (snd (snd (get_user_token f sf e em uid tbl))) = 1" by simp
  qed
  have i: "(\<forall>r l m v. fetchone (select_where uid tbl) = Some r \<and> NEEDS_REAUTH r \<noteq> Some True
          \<and> \<not> expired (TOKEN_EXPIRY r) (py_now e)
          \<and> fetch_PAGES sf (PAGES r) = JList l \<and> JObj m \<in> set l
          \<and> map_of m ''access_token'' = Some v
          \<and> (\<forall>c. v = JStr c \<longrightarrow> decrypt f c = None) \<longrightarrow>
        fst (get_user_token f sf e em uid tbl) = NotFound
        \<and> fst (snd (get_user_token f sf e em uid tbl)) = tbl
        \<and> length (snd (snd (get_user_token f sf e em uid tbl))) = 1)"
  proof (intro allI impI)
    fix r l m v
    assume asm: "fetchone (select_where uid tbl) = Some r \<and> NEEDS_REAUTH r \<noteq> Some True
          \<and> \<not> expired (TOKEN_EXPIRY r) (py_now e)
          \<and> fetch_PAGES sf (PAGES r) = JList l \<and> JObj m \<in> set l
          \<and> map_of m ''access_token'' = Some v
          \<and> (\<forall>c. v = JStr c \<longrightarrow> decrypt f c = None)"
    then have f1: "fetchone (select_where uid tbl) = Some r"
      and f2: "NEEDS_REAUTH r \<noteq> Some True"
      and f3: "\<not> expired (TOKEN_EXPIRY r) (py_now e)" by simp_all
    from asm have bad: "\<exists>x. decrypt_record f sf r = Inl x"
      using record_page_fault [of sf r l m v f] by blast
    from get_decrypt_fault [OF f1 f2 f3 bad, of em]
    show "fst (get_user_token f sf e em uid tbl) = NotFound
        \<and> fst (snd (get_user_token f sf e em uid tbl)) = tbl
        \<and> length (snd (snd (get_user_token f sf e em uid tbl))) = 1" by simp
  qed
  have j: "(\<forall>r. fetchone (select_where uid tbl) = Some r \<and> NEEDS_REAUTH r \<noteq> Some True
          \<and> \<not> expired (TOKEN_EXPIRY r) (py_now e)
          \<and> connect_fault e = None \<and> execute_fault e = None \<and> close_fault e = None
          \<and> (\<forall>c. ACCESS_TOKEN r = JStr c \<longrightarrow> decrypt f c = None) \<longrightarrow>
        (\<exists>x. decrypt_token f (ACCESS_TOKEN r) = Inl x
           \<and> get_user_token f sf e em uid tbl
                = (NotFound, tbl, [''Error retrieving token: '' @ py_str x])))"
  proof (intro allI impI)
    fix r
    assume asm: "fetchone (select_where uid tbl) = Some r \<and> NEEDS_REAUTH r \<noteq> Some True
          \<and> \<not> expired (TOKEN_EXPIRY r) (py_now e)
          \<and> connect_fault e = None \<and> execute_fault e = None \<and> close_fault e = None
          \<and> (\<forall>c. ACCESS_TOKEN r = JStr c \<longrightarrow> decrypt f c = None)"
    then obtain x where x: "decrypt_token f (ACCESS_TOKEN r) = Inl x"
      using decrypt_token_fails by blast
    then have "decrypt_record f sf r = Inl x" by (simp add: decrypt_record_def)
    with asm get_current [of uid tbl r e f sf em]
    have "get_user_token f sf e em uid tbl
            = (NotFound, tbl, [''Error retrieving token: '' @ py_str x])" by simp
    with x show "\<exists>x. decrypt_token f (ACCESS_TOKEN r) = Inl x
           \<and> get_user_token f sf e em uid tbl
                = (NotFound, tbl, [''Error retrieving token: '' @ py_str x])" by blast
  qed
  from a b c d e g h i j show ?thesis by (intro conjI)
qed

theorem fetch_degrades_to_not_found_witness:
  "select_where ''nobody'' [open_row] = []
   \<and> fst (get_user_token toy_fernet plain_table (session_at 5) (session_at 5) ''nobody'' [open_row])
       = NotFound
   \<and> connect_fault offline = Some (DatabaseError ''250001: could not connect'')
   \<and> get_user_token toy_fernet plain_table offline offline ''u1'' [open_row]
       = (NotFound, [open_row], [''Error retrieving token: 250001: could not connect''])
   \<and> decrypt toy_fernet ''damaged'' = None
   \<and> get_user_token toy_fernet plain_table (session_at 5) (session_at 5) ''u1'' [damaged_row]
       = (NotFound, [damaged_row], [''Error retrieving token: ''])
   \<and> fetch_PAGES plain_table (PAGES damaged_page_row)
       = JList [JObj [(''id'', JStr ''p2'')],
                JObj [(''id'', JStr ''p1''), (''access_token'', JStr ''damaged'')]]
   \<and> decrypt toy_fernet ''gAAAAA|tok-abc'' = Some ''tok-abc''
   \<and> get_user_token toy_fernet plain_table (session_at 5) (session_at 5) ''u1'' [damaged_page_row]
       = (NotFound, [damaged_page_row], [''Error retrieving token: ''])"
  using fetch_degrades_to_not_found [where uid = "''nobody''" and tbl = "[open_row]"
          and f = toy_fernet and sf = plain_table and e = "session_at 5" and em = "session_at 5"]
        fetch_degrades_to_not_found [where uid = "''u1''" and tbl = "[open_row]"
          and f = toy_fernet and sf = plain_table and e = offline and em = offline]
        fetch_degrades_to_not_found [where uid = "''u1''" and tbl = "[damaged_row]"
          and f = toy_fernet and sf = plain_table and e = "session_at 5" and em = "session_at 5"]
        fetch_degrades_to_not_found [where uid = "''u1''" and tbl = "[damaged_page_row]"
          and f = toy_fernet and sf = plain_table and e = "session_at 5" and em = "session_at 5"]
  by (simp add: run_fetch run_more session_at_def offline_def toy_fernet_def plain_table_def)

lemma record_decrypts:
  assumes "ACCESS_TOKEN r = JStr c" and "decrypt f c = Some t"
    and "fetch_PAGES sf (PAGES r) = JList l"
    and "\<forall>page\<in>set l. \<exists>m. page = JObj m
              \<and> (\<forall>v. map_of m ''access_token'' = Some v \<longrightarrow>
                    (\<exists>c t. v = JStr c \<and> decrypt f c = Some t))"
  shows "\<exists>q. decrypt_record f sf r
               = Inr (TokenRecord \<lparr>user_id = USER_ID r, meta_user_id = META_USER_ID r,
                        access_token = t, token_expiry = TOKEN_EXPIRY r,
                        pages = (if l = [] then JNull else JList q),
                        needs_reauth = False\<rparr>)
           \<and> length q = length l
           \<and> (\<forall>i<length l. \<forall>m. l ! i = JObj m \<longrightarrow>
               (map_of m ''access_token'' = None \<longrightarrow> q ! i = JObj m)
             \<and> (\<forall>c t. map_of m ''access_token'' = Some (JStr c) \<and> decrypt f c = Some t \<longrightarrow>
                   q ! i = JObj (map (\<lambda>kv. if fst kv = ''access_token''
                      then (''access_token'', JStr t) else kv) m)))"
proof -
  from decrypt_pages_dicts [OF assms(4)] obtain q where
    q: "decrypt_pages f l = Inr q" and len: "length q = length l"
    and pt: "(\<forall>i<length l. \<forall>m. l ! i = JObj m \<longrightarrow>
               (map_of m ''access_token'' = None \<longrightarrow> q ! i = JObj m)
             \<and> (\<forall>c t. map_of m ''access_token'' = Some (JStr c) \<and> decrypt f c = Some t \<longrightarrow>
                   q ! i = JObj (map (\<lambda>kv. if fst kv = ''access_token''
                      then (''access_token'', JStr t) else kv) m)))"
    by blast
  have "decrypt_record f sf r
               = Inr (TokenRecord \<lparr>user_id = USER_ID r, meta_user_id = META_USER_ID r,
                        access_token = t, token_expiry = TOKEN_EXPIRY r,
                        pages = (if l = [] then JNull else JList q),
                        needs_reauth = False\<rparr>)"
    by (simp add: decrypt_record_def assms(1,2,3) decrypt_column_list q)
  with len pt show ?thesis by blast
qed

lemma record_without_pages:
  assumes "ACCESS_TOKEN r = JStr c" and "decrypt f c = Some t"
    and "\<not> truthy (fetch_PAGES sf (PAGES r))"
  shows "decrypt_record f sf r
           = Inr (TokenRecord \<lparr>user_id = USER_ID r, meta_user_id = META_USER_ID r,
                    access_token = t, token_expiry = TOKEN_EXPIRY r, pages = JNull,
                    needs_reauth = False\<rparr>)"
  using assms by (simp add: decrypt_record_def decrypt_column_def)

text \<open>
  Claim C10 as stated fails in its second part: a row with the flag unset and no expiry is
  not always returned decrypted. When its token is not a ciphertext of the vault,
  \<open>get_user_token\<close> shows the error and returns \<open>None\<close>.
\<close>

theorem undecryptable_record_is_not_returned:
  "fetchone (select_where ''u1'' [damaged_open_row]) = Some damaged_open_row
   \<and> NEEDS_REAUTH damaged_open_row = None
   \<and> TOKEN_EXPIRY damaged_open_row = None
   \<and> get_user_token toy_fernet plain_table (session_at 5) (session_at 5) ''u1'' [damaged_open_row]
       = (NotFound, [damaged_open_row], [''Error retrieving token: ''])"
  by (simp add: run_fetch run_more session_at_def toy_fernet_def plain_table_def)

text \<open>
  Claim C10, amended. When the fetched row has \<open>NEEDS_REAUTH\<close> unset (false or
  \<open>NULL\<close>) and \<open>TOKEN_EXPIRY\<close> is \<open>NULL\<close>, \<open>get_user_token\<close> never returns
  the reauthorization marker, whatever the clock; the marking session plays no part and
  the table is unchanged. With a working session, a token that the vault decrypts and a
  fetched list of pages that are dicts whose tokens the vault decrypts, the result is the
  record with the decrypted token, a \<open>None\<close> expiry, \<open>needs_reauth\<close> false and the
  pages with every token decrypted and everything else as stored (\<open>None\<close> for the pages
  when the fetched value is false). The result is \<open>None\<close> when the session fails, when
  the token is not a string or is rejected by the vault, when the token of a page is not a
  string or is rejected, and when the connector hands the pages back as a non-empty
  string.
\<close>

theorem no_expiry_never_needs_reauth:
  assumes "fetchone (select_where uid tbl) = Some r" and "NEEDS_REAUTH r \<noteq> Some True"
    and "TOKEN_EXPIRY r = None"
  shows "fst (get_user_token f sf e em uid tbl) \<noteq> NeedsReauthMarker
       \<and> snd (get_user_token f sf e em uid tbl) = snd (get_user_token f sf e em' uid tbl)
       \<and> fst (snd (get_user_token f sf e em uid tbl)) = tbl
       \<and> (connect_fault e \<noteq> None \<or> execute_fault e \<noteq> None \<or> close_fault e \<noteq> None \<longrightarrow>
          fst (get_user_token f sf e em uid tbl) = NotFound)
       \<and> (connect_fault e = None \<and> execute_fault e = None \<and> close_fault e = None
          \<and> ACCESS_TOKEN r = JStr c \<and> decrypt f c = Some t
          \<and> fetch_PAGES sf (PAGES r) = JList l
          \<and> (\<forall>page\<in>set l. \<exists>m. page = JObj m
              \<and> (\<forall>v. map_of m ''access_token'' = Some v \<longrightarrow>
                    (\<exists>c t. v = JStr c \<and> decrypt f c = Some t))) \<longrightarrow>
          (\<exists>q. get_user_token f sf e em uid tbl
                  = (TokenRecord \<lparr>user_id = USER_ID r, meta_user_id = META_USER_ID r,
                        access_token = t, token_expiry = None,
                        pages = (if l = [] then JNull else JList q),
                        needs_reauth = False\<rparr>, tbl, [])
              \<and> length q = length l
              \<and> (\<forall>i<length l. \<forall>m. l ! i = JObj m \<longrightarrow>
                  (map_of m ''access_token'' = None \<longrightarrow> q ! i = JObj m)
                \<and> (\<forall>c t. map_of m ''access_token'' = Some (JStr c) \<and> decrypt f c = Some t \<longrightarrow>
                      q ! i = JObj (map (\<lambda>kv. if fst kv = ''access_token''
                         then (''access_token'', JStr t) else kv) m)))))
       \<and> (connect_fault e = None \<and> execute_fault e = None \<and> close_fault e = None
          \<and> ACCESS_TOKEN r = JStr c \<and> decrypt f c = Some t
          \<and> \<not> truthy (fetch_PAGES sf (PAGES r)) \<longrightarrow>
          get_user_token f sf e em uid tbl
            = (TokenRecord \<lparr>user_id = USER_ID r, meta_user_id = META_USER_ID r,
                  access_token = t, token_expiry = None, pages = JNull,
                  needs_reauth = False\<rparr>, tbl, []))
       \<and> ((\<forall>c. ACCESS_TOKEN r = JStr c \<longrightarrow> decrypt f c = None) \<longrightarrow>
          fst (get_user_token f sf e em uid tbl) = NotFound)
       \<and> (fetch_PAGES sf (PAGES r) = JList l \<and> JObj m \<in> set l
          \<and> map_of m ''access_token'' = Some v
          \<and> (\<forall>c. v = JStr c \<longrightarrow> decrypt f c = None) \<longrightarrow>
          fst (get_user_token f sf e em uid tbl) = NotFound)
       \<and> (fetch_PAGES sf (PAGES r) = JStr s \<and> s \<noteq> [] \<longrightarrow>
          fst (get_user_token f sf e em uid tbl) = NotFound)"
proof -
  have fresh: "\<not> expired (TOKEN_EXPIRY r) (py_now e)" by (simp add: expired_def assms(3))
  have a: "fst (get_user_token f sf e em uid tbl) \<noteq> NeedsReauthMarker"
    using assms fresh
    by (auto simp: get_user_token_def get_user_token_try_def decrypt_record_def then_do_Inr_iff
             split: option.splits sum.splits)
  have b: "snd (get_user_token f sf e em uid tbl) = snd (get_user_token f sf e em' uid tbl)"
    using assms fresh
    by (auto simp: get_user_token_def get_user_token_try_def split: option.splits sum.splits)
  have c: "fst (snd (get_user_token f sf e em uid tbl)) = tbl"
    using assms fresh
    by (auto simp: get_user_token_def get_user_token_try_def split: option.splits sum.splits)
  have d: "(connect_fault e \<noteq> None \<or> execute_fault e \<noteq> None \<or> close_fault e \<noteq> None \<longrightarrow>
          fst (get_user_token f sf e em uid tbl) = NotFound)"
    using get_session_fault [of e f sf em uid tbl] by auto
  have e: "(connect_fault e = None \<and> execute_fault e = None \<and> close_fault e = None
          \<and> ACCESS_TOKEN r = JStr c \<and> decrypt f c = Some t
          \<and> fetch_PAGES sf (PAGES r) = JList l
          \<and> (\<forall>page\<in>set l. \<exists>m. page = JObj m
              \<and> (\<forall>v. map_of m ''access_token'' = Some v \<longrightarrow>
                    (\<exists>c t. v = JStr c \<and> decrypt f c = Some t))) \<longrightarrow>
          (\<exists>q. get_user_token f sf e em uid tbl
                  = (TokenRecord \<lparr>user_id = USER_ID r, meta_user_id = META_USER_ID r,
                        access_token = t, token_expiry = None,
                        pages = (if l = [] then JNull else JList q),
                        needs_reauth = False\<rparr>, tbl, [])
              \<and> length q = length l
              \<and> (\<forall>i<length l. \<forall>m. l ! i = JObj m \<longrightarrow>
                  (map_of m ''access_token'' = None \<longrightarrow> q ! i = JObj m)
                \<and> (\<forall>c t. map_of m ''access_token'' = Some (JStr c) \<and> decrypt f c = Some t \<longrightarrow>
                      q ! i = JObj (map (\<lambda>kv. if fst kv = ''access_token''
                         then (''access_token'', JStr t) else kv) m)))))"
  proof
    assume asm: "connect_fault e = None \<and> execute_fault e = None \<and> close_fault e = None
          \<and> ACCESS_TOKEN r = JStr c \<and> decrypt f c = Some t
          \<and> fetch_PAGES sf (PAGES r) = JList l
          \<and> (\<forall>page\<in>set l. \<exists>m. page = JObj m
              \<and> (\<forall>v. map_of m ''access_token'' = Some v \<longrightarrow>
                    (\<exists>c t. v = JStr c \<and> decrypt f c = Some t)))"
    then have ok: "connect_fault e = None" "execute_fault e = None" "close_fault e = None"
      and tok: "ACCESS_TOKEN r = JStr c" "decrypt f c = Some t"
      and pg: "fetch_PAGES sf (PAGES r) = JList l"
      and wf: "\<forall>page\<in>set l. \<exists>m. page = JObj m
              \<and> (\<forall>v. map_of m ''access_token'' = Some v \<longrightarrow>
                    (\<exists>c t. v = JStr c \<and> decrypt f c = Some t))" by simp_all
    from record_decrypts [OF tok pg wf] obtain q where
      rec: "decrypt_record f sf r
               = Inr (TokenRecord \<lparr>user_id = USER_ID r, meta_user_id = META_USER_ID r,
                        access_token = t, token_expiry = TOKEN_EXPIRY r,
                        pages = (if l = [] then JNull else JList q),
                        needs_reauth = False\<rparr>)"
      and len: "length q = length l"
      and pt: "(\<forall>i<length l. \<forall>m. l ! i = JObj m \<longrightarrow>
               (map_of m ''access_token'' = None \<longrightarrow> q ! i = JObj m)
             \<and> (\<forall>c t. map_of m ''access_token'' = Some (JStr c) \<and> decrypt f c = Some t \<longrightarrow>
                   q ! i = JObj (map (\<lambda>kv. if fst kv = ''access_token''
                      then (''access_token'', JStr t) else kv) m)))"
      by blast
    from get_current [OF assms(1,2) fresh ok, of f sf em] rec
    have "get_user_token f sf e em uid tbl
                  = (TokenRecord \<lparr>user_id = USER_ID r, meta_user_id = META_USER_ID r,
                        access_token = t, token_expiry = None,
                        pages = (if l = [] then JNull else JList q),
                        needs_reauth = False\<rparr>, tbl, [])"
      by (simp add: assms(3))
    with len pt show "\<exists>q. get_user_token f sf e em uid tbl
                  = (TokenRecord \<lparr>user_id = USER_ID r, meta_user_id = META_USER_ID r,
                        access_token = t, token_expiry = None,
                        pages = (if l = [] then JNull else JList q),
                        needs_reauth = False\<rparr>, tbl, [])
              \<and> length q = length l
              \<and> (\<forall>i<length l. \<forall>m. l ! i = JObj m \<longrightarrow>
                  (map_of m ''access_token'' = None \<longrightarrow> q ! i = JObj m)
                \<and> (\<forall>c t. map_of m ''access_token'' = Some (JStr c) \<and> decrypt f c = Some t \<longrightarrow>
                      q ! i = JObj (map (\<lambda>kv. if fst kv = ''access_token''
                         then (''access_token'', JStr t) else kv) m)))"
      by blast
  qed
  have g: "(connect_fault e = None \<and> execute_fault e = None \<and> close_fault e = None
          \<and> ACCESS_TOKEN r = JStr c \<and> decrypt f c = Some t
          \<and> \<not> truthy (fetch_PAGES sf (PAGES r)) \<longrightarrow>
          get_user_token f sf e em uid tbl
            = (TokenRecord \<lparr>user_id = USER_ID r, meta_user_id = META_USER_ID r,
                  access_token = t, token_expiry = None, pages = JNull,
                  needs_reauth = False\<rparr>, tbl, []))"
  proof
    assume asm: "connect_fault e = None \<and> execute_fault e = None \<and> close_fault e = None
          \<and> ACCESS_TOKEN r = JStr c \<and> decrypt f c = Some t
          \<and> \<not> truthy (fetch_PAGES sf (PAGES r))"
    then have ok: "connect_fault e = None" "execute_fault e = None" "close_fault e = None"
      and tok: "ACCESS_TOKEN r = JStr c" "decrypt f c = Some t"
      and pg: "\<not> truthy (fetch_PAGES sf (PAGES r))" by simp_all
    from get_current [OF assms(1,2) fresh ok, of f sf em] record_without_pages [OF tok pg]
    show "get_user_token f sf e em uid tbl
            = (TokenRecord \<lparr>user_id = USER_ID r, meta_user_id = META_USER_ID r,
                  access_token = t, token_expiry = None, pages = JNull,
                  needs_reauth = False\<rparr>, tbl, [])"
      by (simp add: assms(3))
  qed
  have h: "((\<forall>c. ACCESS_TOKEN r = JStr c \<longrightarrow> decrypt f c = None) \<longrightarrow>
          fst (get_user_token f sf e em uid tbl) = NotFound)"
    using get_decrypt_fault(1) [OF assms(1,2) fresh, of f sf em] record_token_fault [of r f sf]
    by blast
  have i: "(fetch_PAGES sf (PAGES r) = JList l \<and> JObj m \<in> set l
          \<and> map_of m ''access_token'' = Some v
          \<and> (\<forall>c. v = JStr c \<longrightarrow> decrypt f c = None) \<longrightarrow>
          fst (get_user_token f sf e em uid tbl) = NotFound)"
    using get_decrypt_fault(1) [OF assms(1,2) fresh, of f sf em]
      record_page_fault [of sf r l m v f]
    by blast
  have j: "(fetch_PAGES sf (PAGES r) = JStr s \<and> s \<noteq> [] \<longrightarrow>
          fst (get_user_token f sf e em uid tbl) = NotFound)"
    using get_decrypt_fault(1) [OF assms(1,2) fresh, of f sf em] record_text_fault [of sf r s f]
    by blast
  from a b c d e g h i j show ?thesis by (intro conjI)
qed

theorem no_expiry_never_needs_reauth_witness:
  "fetchone (select_where ''u1'' [two_page_row]) = Some two_page_row
   \<and> NEEDS_REAUTH two_page_row \<noteq> Some True
   \<and> TOKEN_EXPIRY two_page_row = None
   \<and> get_user_token toy_fernet plain_table (session_at 99999999999) offline ''u1'' [two_page_row]
       = (TokenRecord \<lparr>user_id = ''u1'', meta_user_id = JStr ''fb123'',
                       access_token = ''tok-abc'', token_expiry = None,
                       pages = JList [JObj [(''id'', JStr ''p2'')],
                                      JObj [(''id'', JStr ''p1''),
                                            (''access_token'', JStr ''page-tok'')]],
                       needs_reauth = False\<rparr>, [two_page_row], [])
   \<and> fetch_PAGES text_connector (PAGES two_page_row) = JStr ''[{}]''
   \<and> get_user_token toy_fernet text_connector (session_at 5) offline ''u1'' [two_page_row]
       = (NotFound, [two_page_row],
          [''Error retrieving token: '' @ py_str (wrong_length 0 1)])
   \<and> get_user_token toy_fernet plain_table offline offline ''u1'' [two_page_row]
       = (NotFound, [two_page_row], [''Error retrieving token: 250001: could not connect''])"
proof -
  have first: "fetchone (select_where ''u1'' [two_page_row]) = Some two_page_row"
    by (simp add: select_where_def two_page_row_def)
  have flag: "NEEDS_REAUTH two_page_row \<noteq> Some True" by (simp add: two_page_row_def)
  have expiry: "TOKEN_EXPIRY two_page_row = None" by (simp add: two_page_row_def)
  have good: "get_user_token toy_fernet plain_table (session_at 99999999999) offline ''u1'' [two_page_row]
       = (TokenRecord \<lparr>user_id = ''u1'', meta_user_id = JStr ''fb123'',
                       access_token = ''tok-abc'', token_expiry = None,
                       pages = JList [JObj [(''id'', JStr ''p2'')],
                                      JObj [(''id'', JStr ''p1''),
                                            (''access_token'', JStr ''page-tok'')]],
                       needs_reauth = False\<rparr>, [two_page_row], [])"
    using no_expiry_never_needs_reauth [OF first flag expiry, where e = "session_at 99999999999"
      and f = toy_fernet and sf = plain_table and em = offline and c = "''gAAAAA|tok-abc''"
      and t = "''tok-abc''"
      and l = "[JObj [(''id'', JStr ''p2'')],
                JObj [(''id'', JStr ''p1''), (''access_token'', JStr ''gAAAAA=|page-tok'')]]"]
    by (simp add: run_fetch run_more session_at_def toy_fernet_def plain_table_def dict_set_def)
  have refused: "get_user_token toy_fernet text_connector (session_at 5) offline ''u1'' [two_page_row]
       = (NotFound, [two_page_row],
          [''Error retrieving token: '' @ py_str (wrong_length 0 1)])"
    using no_expiry_never_needs_reauth [OF first flag expiry, where e = "session_at 5"
      and f = toy_fernet and sf = text_connector and em = offline and s = "''[{}]''"]
    by (simp add: run_fetch run_more session_at_def toy_fernet_def)
  have off: "get_user_token toy_fernet plain_table offline offline ''u1'' [two_page_row]
       = (NotFound, [two_page_row], [''Error retrieving token: 250001: could not connect''])"
    using no_expiry_never_needs_reauth [OF first flag expiry, where e = offline
      and f = toy_fernet and sf = plain_table and em = offline]
    by (simp add: run_fetch run_more offline_def)
  have shape: "fetch_PAGES text_connector (PAGES two_page_row) = JStr ''[{}]''"
    by (simp add: run_more)
  from first flag expiry good shape refused off show ?thesis by (intro conjI)
qed

section \<open>The resource stage and the store\<close>






end
